theory Spec2Isabelle
  imports Complex_Main
begin

section \<open>Values of the program\<close>

text \<open>
  A Python float is an IEEE double: a finite value, an infinity or NaN. A finite double is
  identified with the real number it denotes (\<open>Fin r\<close>); both zeros denote 0. Comparisons of
  doubles are exact, so \<open>>=\<close> and \<open><\<close> on finite values are the comparisons of the reals, and
  every comparison with NaN is false.
\<close>

datatype pyfloat = Fin real | PInf | NInf | NaN

text \<open>Python's \<open>a >= b\<close> on two floats.\<close>

fun float_ge :: "pyfloat \<Rightarrow> pyfloat \<Rightarrow> bool" where
  "float_ge NaN _ = False"
| "float_ge _ NaN = False"
| "float_ge PInf _ = True"
| "float_ge _ NInf = True"
| "float_ge (Fin a) (Fin b) = (b \<le> a)"
| "float_ge (Fin _) PInf = False"
| "float_ge NInf _ = False"

text \<open>
  Python's \<open>a < n\<close> and \<open>a >= n\<close> for a float \<open>a\<close> and an int \<open>n\<close>: Python compares the two
  exactly, without converting the int.
\<close>

fun float_lt_int :: "pyfloat \<Rightarrow> int \<Rightarrow> bool" where
  "float_lt_int NaN _ = False"
| "float_lt_int PInf _ = False"
| "float_lt_int NInf _ = True"
| "float_lt_int (Fin a) n = (a < of_int n)"

fun float_ge_int :: "pyfloat \<Rightarrow> int \<Rightarrow> bool" where
  "float_ge_int NaN _ = False"
| "float_ge_int PInf _ = True"
| "float_ge_int NInf _ = False"
| "float_ge_int (Fin a) n = (of_int n \<le> a)"

text \<open>
  A decoded JSON value, as \<open>r.json()\<close> returns it. \<open>JNull\<close> is Python's \<open>None\<close>; an object is
  the dict as an association list, in which the first entry of a key holds its value.
\<close>

datatype json =
    JNull
  | JBool bool
  | JInt int
  | JFloat pyfloat
  | JStr string
  | JArr "json list"
  | JObj "(string \<times> json) list"

text \<open>Truth value of a Python object in a condition (\<open>if data:\<close>, \<open>not top_acc\<close>).\<close>

fun truthy :: "json \<Rightarrow> bool" where
  "truthy JNull = False"
| "truthy (JBool b) = b"
| "truthy (JInt n) = (n \<noteq> 0)"
| "truthy (JFloat x) = (x \<noteq> Fin 0)"
| "truthy (JStr s) = (s \<noteq> [])"
| "truthy (JArr xs) = (xs \<noteq> [])"
| "truthy (JObj kvs) = (kvs \<noteq> [])"

text \<open>\<open>d.get(k, default)\<close> and \<open>k in d\<close> on a dict.\<close>

definition dict_get :: "(string \<times> json) list \<Rightarrow> string \<Rightarrow> json \<Rightarrow> json" where
  "dict_get d k dflt = (case map_of d k of None \<Rightarrow> dflt | Some v \<Rightarrow> v)"

definition has_key :: "(string \<times> json) list \<Rightarrow> string \<Rightarrow> bool" where
  "has_key d k = (map_of d k \<noteq> None)"

text \<open>
  The builtins \<open>float(x)\<close> and \<open>int(x)\<close>; \<open>None\<close> stands for a raised exception (TypeError,
  ValueError, OverflowError). What they do on a float, a bool, \<open>None\<close>, a list or a dict is
  written out. Parsing a string and rounding an int to a double belong to the language, not
  to this program: they are the three fields of \<open>conv\<close>, and every theorem holds for all of
  them.
\<close>

record conv =
  str_float :: "string \<Rightarrow> pyfloat option"
  int_float :: "int \<Rightarrow> pyfloat option"
  str_int :: "string \<Rightarrow> int option"

fun py_float :: "conv \<Rightarrow> json \<Rightarrow> pyfloat option" where
  "py_float C JNull = None"
| "py_float C (JBool b) = Some (Fin (if b then 1 else 0))"
| "py_float C (JInt n) = int_float C n"
| "py_float C (JFloat x) = Some x"
| "py_float C (JStr s) = str_float C s"
| "py_float C (JArr xs) = None"
| "py_float C (JObj kvs) = None"

fun py_int :: "conv \<Rightarrow> json \<Rightarrow> int option" where
  "py_int C JNull = None"
| "py_int C (JBool b) = Some (if b then 1 else 0)"
| "py_int C (JInt n) = Some n"
| "py_int C (JFloat (Fin r)) = Some (if 0 \<le> r then \<lfloor>r\<rfloor> else \<lceil>r\<rceil>)"
| "py_int C (JFloat _) = None"
| "py_int C (JStr s) = str_int C s"
| "py_int C (JArr xs) = None"
| "py_int C (JObj kvs) = None"

text \<open>\<open>x[i]\<close> for a constant index \<open>i \<ge> 0\<close>: an element of a list, a character of a string;
  KeyError on a decoded JSON dict (its keys are strings), TypeError elsewhere.\<close>

fun py_index :: "json \<Rightarrow> nat \<Rightarrow> json option" where
  "py_index (JArr xs) i = (if i < length xs then Some (xs ! i) else None)"
| "py_index (JStr s) i = (if i < length s then Some (JStr [s ! i]) else None)"
| "py_index _ i = None"

section \<open>Parameters\<close>

definition MIN_OI_USDT :: int where
  "MIN_OI_USDT = 2500000"

text \<open>
  The thresholds are the float literals \<open>0.65\<close> and \<open>0.45\<close>, that is, the doubles nearest to
  these decimals: \<open>5854679515581645 / 2^53\<close> and \<open>8106479329266893 / 2^54\<close>.
\<close>

definition TOP_ACC_SHORT_MIN :: pyfloat where
  "TOP_ACC_SHORT_MIN = Fin (5854679515581645 / 2 ^ 53)"

definition GLOBAL_ACC_SHORT_MIN :: pyfloat where
  "GLOBAL_ACC_SHORT_MIN = Fin (5854679515581645 / 2 ^ 53)"

definition TOP_POS_LONG_MIN :: pyfloat where
  "TOP_POS_LONG_MIN = Fin (8106479329266893 / 2 ^ 54)"

definition TOP_ACC_LONG_MIN :: pyfloat where
  "TOP_ACC_LONG_MIN = Fin (5854679515581645 / 2 ^ 53)"

definition GLOBAL_ACC_LONG_MIN :: pyfloat where
  "GLOBAL_ACC_LONG_MIN = Fin (5854679515581645 / 2 ^ 53)"

definition TOP_POS_SHORT_MIN :: pyfloat where
  "TOP_POS_SHORT_MIN = Fin (8106479329266893 / 2 ^ 54)"

section \<open>The asynchronous HTTP path\<close>

text \<open>
  What one \<open>session.get\<close> does: it raises (timeout, connection error), or it answers with a
  status and a body; \<open>r.json()\<close> on the body raises (\<open>None\<close>) or decodes a value. The network
  of one evaluation is a function of the path and the symbol of the request (the other
  parameters are constants of the program; every path is requested at most once per symbol).
\<close>

datatype http_reply = Failed | Reply int "json option"

type_synonym network = "string \<Rightarrow> string \<Rightarrow> http_reply"

definition http_get_async :: "network \<Rightarrow> string \<Rightarrow> string \<Rightarrow> json" where
  "http_get_async net path symb =
     (case net path symb of
        Failed \<Rightarrow> JNull
      | Reply status body \<Rightarrow>
          if status = 200 then (case body of None \<Rightarrow> JNull | Some j \<Rightarrow> j) else JNull)"

definition latest_async :: "network \<Rightarrow> string \<Rightarrow> string \<Rightarrow> json" where
  "latest_async net endpoint symb =
     (case http_get_async net endpoint symb of
        JArr (x # xs) \<Rightarrow> x
      | _ \<Rightarrow> JNull)"

text \<open>\<open>f\<close>: \<open>float(x)\<close>, with every exception turned into \<open>None\<close>.\<close>

definition f :: "conv \<Rightarrow> json \<Rightarrow> pyfloat option" where
  "f C x = (case py_float C x of Some v \<Rightarrow> Some v | None \<Rightarrow> None)"

text \<open>
  \<open>float(data.get(k)) if k in data else None\<close>: the outer \<open>None\<close> is a raised exception, the
  inner one the absent key.
\<close>

definition float_if_present :: "conv \<Rightarrow> (string \<times> json) list \<Rightarrow> string \<Rightarrow> pyfloat option option" where
  "float_if_present C d k =
     (if has_key d k
      then (case py_float C (dict_get d k JNull) of None \<Rightarrow> None | Some v \<Rightarrow> Some (Some v))
      else Some None)"

text \<open>
  \<open>get_premium_data_async\<close>. On a true value that is not a dict, \<open>k in data\<close> either raises
  (a number), or is false, or is true and then \<open>data.get\<close> raises (a string, a list): the
  result is \<open>(None, None)\<close> on every such path.
\<close>

definition get_premium_data_async :: "conv \<Rightarrow> network \<Rightarrow> string \<Rightarrow> pyfloat option \<times> pyfloat option" where
  "get_premium_data_async C net symb =
     (let data = http_get_async net ''/fapi/v1/premiumIndex'' symb in
      if truthy data then
        (case data of
           JObj d \<Rightarrow>
             (case float_if_present C d ''lastFundingRate'' of
                None \<Rightarrow> (None, None)
              | Some funding_rate \<Rightarrow>
                  (case float_if_present C d ''markPrice'' of
                     None \<Rightarrow> (None, None)
                   | Some current_price \<Rightarrow> (funding_rate, current_price)))
         | _ \<Rightarrow> (None, None))
      else (None, None))"

text \<open>
  \<open>get_volume_data_async\<close>: two requests, each in a \<open>try\<close> of its own. On a true ticker
  that is not a dict, \<open>"volume" in ticker\<close> raises, is false, or is true and then
  \<open>ticker.get\<close> raises: \<open>volume_24h\<close> stays \<open>None\<close>. \<open>len(klines)\<close> raises on a number or a
  bool.
\<close>

definition volume_24h_of :: "conv \<Rightarrow> json \<Rightarrow> pyfloat option" where
  "volume_24h_of C ticker =
     (if truthy ticker then
        (case ticker of
           JObj d \<Rightarrow> (if has_key d ''volume'' then py_float C (dict_get d ''volume'' JNull) else None)
         | _ \<Rightarrow> None)
      else None)"

definition volume_2h_of :: "conv \<Rightarrow> json \<Rightarrow> pyfloat option" where
  "volume_2h_of C klines =
     (if truthy klines then
        (case py_index klines 0 of
           None \<Rightarrow> None
         | Some k0 \<Rightarrow> (case py_index k0 7 of None \<Rightarrow> None | Some v \<Rightarrow> py_float C v))
      else None)"

definition get_volume_data_async :: "conv \<Rightarrow> network \<Rightarrow> string \<Rightarrow> pyfloat option \<times> pyfloat option" where
  "get_volume_data_async C net symb =
     (let ticker = http_get_async net ''/fapi/v1/ticker/24hr'' symb;
          klines = http_get_async net ''/fapi/v1/klines'' symb
      in (volume_24h_of C ticker, volume_2h_of C klines))"

section \<open>The evaluator\<close>

text \<open>The six parsed fractions, under the names of the evaluator's local variables.\<close>

record ratios =
  ta_long :: pyfloat
  ta_short :: pyfloat
  ga_long :: pyfloat
  ga_short :: pyfloat
  tp_long :: pyfloat
  tp_short :: pyfloat

definition setup_a :: "ratios \<Rightarrow> bool" where
  "setup_a r =
     (float_ge (ta_short r) TOP_ACC_SHORT_MIN \<and> float_ge (ga_short r) GLOBAL_ACC_SHORT_MIN
      \<and> float_ge (tp_long r) TOP_POS_LONG_MIN)"

definition setup_b :: "ratios \<Rightarrow> bool" where
  "setup_b r =
     (float_ge (ta_long r) TOP_ACC_LONG_MIN \<and> float_ge (ga_long r) GLOBAL_ACC_LONG_MIN
      \<and> float_ge (tp_short r) TOP_POS_SHORT_MIN)"

text \<open>
  How a block of the evaluator ends: a plain \<open>return\<close>, an exception that reaches
  \<open>except Exception as e\<close>, or control going on with the values computed so far.
\<close>

datatype 'a stage = Return | Raised | Go 'a

text \<open>\<open>None in (ta_long, ta_short, ga_long, ga_short, tp_long, tp_short)\<close> is false exactly
  when all six are floats.\<close>

fun ratios_of ::
  "pyfloat option \<Rightarrow> pyfloat option \<Rightarrow> pyfloat option \<Rightarrow> pyfloat option \<Rightarrow> pyfloat option
   \<Rightarrow> pyfloat option \<Rightarrow> ratios option" where
  "ratios_of (Some a1) (Some a2) (Some g1) (Some g2) (Some p1) (Some p2) =
     Some \<lparr>ta_long = a1, ta_short = a2, ga_long = g1, ga_short = g2, tp_long = p1, tp_short = p2\<rparr>"
| "ratios_of _ _ _ _ _ _ = None"

text \<open>
  FIRST block, after the three lens requests: the truth test of the three snapshots, the six
  \<open>f(x.get(...))\<close> (\<open>.get\<close> raises AttributeError on a snapshot that is not a dict, before
  the \<open>None\<close> test is reached), the timestamp, and the two setups.
\<close>

definition check_traders :: "conv \<Rightarrow> json \<Rightarrow> json \<Rightarrow> json \<Rightarrow> (ratios \<times> int) stage" where
  "check_traders C top_acc glob_acc top_pos =
     (if \<not> (truthy top_acc \<and> truthy glob_acc \<and> truthy top_pos) then Return
      else
        (case top_acc of
           JObj ta \<Rightarrow>
             (case glob_acc of
                JObj ga \<Rightarrow>
                  (case top_pos of
                     JObj tp \<Rightarrow>
                       (case ratios_of
                               (f C (dict_get ta ''longAccount'' JNull))
                               (f C (dict_get ta ''shortAccount'' JNull))
                               (f C (dict_get ga ''longAccount'' JNull))
                               (f C (dict_get ga ''shortAccount'' JNull))
                               (f C (dict_get tp ''longAccount'' JNull))
                               (f C (dict_get tp ''shortAccount'' JNull)) of
                          None \<Rightarrow> Return
                        | Some r \<Rightarrow>
                            (case py_int C (dict_get ta ''timestamp'' (JInt 0)) of
                               None \<Rightarrow> Raised
                             | Some ts_ms \<Rightarrow>
                                 if \<not> (setup_a r \<or> setup_b r) then Return else Go (r, ts_ms)))
                   | _ \<Rightarrow> Raised)
              | _ \<Rightarrow> Raised)
         | _ \<Rightarrow> Raised))"

text \<open>SECOND block, after the open-interest request.\<close>

definition check_oi :: "conv \<Rightarrow> json \<Rightarrow> pyfloat stage" where
  "check_oi C oi =
     (if \<not> truthy oi then Return
      else
        (case oi of
           JObj d \<Rightarrow>
             (case f C (dict_get d ''sumOpenInterestValue'' JNull) of
                None \<Rightarrow> Return
              | Some oi_usdt \<Rightarrow> if float_lt_int oi_usdt MIN_OI_USDT then Return else Go oi_usdt)
         | _ \<Rightarrow> Raised))"

text \<open>A row of \<open>scan_hits\<close>: the tuple the evaluator puts on the queue, field by column
  (\<open>setup_tag\<close> is the column \<open>setup\<close>).\<close>

record hit =
  run_id :: int
  symbol :: string
  setup_tag :: string
  timestamp_ms :: int
  oi_usdt :: pyfloat
  top_acc_long :: pyfloat
  top_acc_short :: pyfloat
  glob_acc_long :: pyfloat
  glob_acc_short :: pyfloat
  top_pos_long :: pyfloat
  top_pos_short :: pyfloat
  funding_rate :: "pyfloat option"
  current_price :: "pyfloat option"
  volume_24h :: "pyfloat option"
  volume_2h :: "pyfloat option"

definition mk_hit ::
  "int \<Rightarrow> string \<Rightarrow> string \<Rightarrow> int \<Rightarrow> pyfloat \<Rightarrow> ratios \<Rightarrow> pyfloat option \<times> pyfloat option
   \<Rightarrow> pyfloat option \<times> pyfloat option \<Rightarrow> hit" where
  "mk_hit run symb tag ts_ms oi r premium volume =
     \<lparr>run_id = run, symbol = symb, setup_tag = tag, timestamp_ms = ts_ms, oi_usdt = oi,
      top_acc_long = ta_long r, top_acc_short = ta_short r,
      glob_acc_long = ga_long r, glob_acc_short = ga_short r,
      top_pos_long = tp_long r, top_pos_short = tp_short r,
      funding_rate = fst premium, current_price = snd premium,
      volume_24h = fst volume, volume_2h = snd volume\<rparr>"

text \<open>
  What one evaluation does: the paths it requested, in order; whether it counted the symbol
  in \<open>passed_traders\<close>; the rows it put on the queue, in order; whether it ended in the
  \<open>except\<close> branch; and whether it came to \<open>await asyncio.sleep(SLEEP_S)\<close> after the
  \<open>try\<close> statement, which a \<open>return\<close> inside the \<open>try\<close> skips.
\<close>

record outcome =
  calls :: "string list"
  passed :: bool
  rows :: "hit list"
  failed :: bool
  paced :: bool

definition process_symbol :: "conv \<Rightarrow> network \<Rightarrow> int \<Rightarrow> string \<Rightarrow> outcome" where
  "process_symbol C net run symb =
     (let top_acc = latest_async net ''/futures/data/topLongShortAccountRatio'' symb;
          glob_acc = latest_async net ''/futures/data/globalLongShortAccountRatio'' symb;
          top_pos = latest_async net ''/futures/data/topLongShortPositionRatio'' symb;
          calls1 = [''/futures/data/topLongShortAccountRatio'',
                    ''/futures/data/globalLongShortAccountRatio'',
                    ''/futures/data/topLongShortPositionRatio'']
      in
        (case check_traders C top_acc glob_acc top_pos of
           Return \<Rightarrow>
             \<lparr>calls = calls1, passed = False, rows = [], failed = False, paced = False\<rparr>
         | Raised \<Rightarrow>
             \<lparr>calls = calls1, passed = False, rows = [], failed = True, paced = True\<rparr>
         | Go (r, ts_ms) \<Rightarrow>
             (let oi = latest_async net ''/futures/data/openInterestHist'' symb;
                  calls2 = calls1 @ [''/futures/data/openInterestHist'']
              in
                (case check_oi C oi of
                   Return \<Rightarrow>
                     \<lparr>calls = calls2, passed = True, rows = [], failed = False, paced = False\<rparr>
                 | Raised \<Rightarrow>
                     \<lparr>calls = calls2, passed = True, rows = [], failed = True, paced = True\<rparr>
                 | Go oi_val \<Rightarrow>
                     (let premium = get_premium_data_async C net symb;
                          volume = get_volume_data_async C net symb;
                          calls3 = calls2 @ [''/fapi/v1/premiumIndex'', ''/fapi/v1/ticker/24hr'',
                                             ''/fapi/v1/klines'']
                      in \<lparr>calls = calls3, passed = True,
                          rows =
                            (if setup_a r
                             then [mk_hit run symb ''CROWD_SHORT__TOP_LONG'' ts_ms oi_val r premium volume]
                             else []) @
                            (if setup_b r
                             then [mk_hit run symb ''CROWD_LONG__TOP_SHORT'' ts_ms oi_val r premium volume]
                             else []),
                          failed = False, paced = True\<rparr>)))))"

section \<open>The sink\<close>

text \<open>
  \<open>con.execute(sql, row_data)\<close> binds the fifteen values of the tuple and runs
  \<open>INSERT OR REPLACE\<close> on \<open>scan_hits\<close>. A bound value is NULL, an INTEGER, a REAL or a
  TEXT. Binding a Python int outside the signed 64-bit range raises \<open>OverflowError\<close>; a
  float NaN is bound as NULL, every other float as itself; \<open>None\<close> is bound as NULL.
\<close>

datatype sqlval = Null | Integer int | Real pyfloat | Text string

datatype db_error = OverflowError | IntegrityError

definition int64 :: "int \<Rightarrow> bool" where
  "int64 n = (- (2 ^ 63) \<le> n \<and> n < 2 ^ 63)"

definition bind_float :: "pyfloat \<Rightarrow> sqlval" where
  "bind_float x = (if x = NaN then Null else Real x)"

definition bind_optional :: "pyfloat option \<Rightarrow> sqlval" where
  "bind_optional x = (case x of None \<Rightarrow> Null | Some v \<Rightarrow> bind_float v)"

definition bind_row :: "hit \<Rightarrow> db_error + sqlval list" where
  "bind_row h =
     (if int64 (run_id h) \<and> int64 (timestamp_ms h)
      then Inr [Integer (run_id h), Text (symbol h), Text (setup_tag h),
                Integer (timestamp_ms h), bind_float (oi_usdt h),
                bind_float (top_acc_long h), bind_float (top_acc_short h),
                bind_float (glob_acc_long h), bind_float (glob_acc_short h),
                bind_float (top_pos_long h), bind_float (top_pos_short h),
                bind_optional (funding_rate h), bind_optional (current_price h),
                bind_optional (volume_24h h), bind_optional (volume_2h h)]
      else Inl OverflowError)"

text \<open>
  The table \<open>scan_hits\<close> is the list of its rows, each the list of its fifteen columns in
  the order of \<open>init_db\<close>. The first five columns (\<open>run_id\<close>, \<open>symbol\<close>, \<open>setup\<close>,
  \<open>timestamp_ms\<close>, \<open>oi_usdt\<close>) are \<open>NOT NULL\<close> and have no default: a NULL there makes
  the statement fail with \<open>IntegrityError\<close> and leaves the table as it was. The primary key
  is the first three columns: \<open>INSERT OR REPLACE\<close> deletes the rows that hold the key of
  the new row and inserts the new row.
\<close>

definition hit_key :: "hit \<Rightarrow> int \<times> string \<times> string" where
  "hit_key h = (run_id h, symbol h, setup_tag h)"

definition row_key :: "sqlval list \<Rightarrow> sqlval list" where
  "row_key r = take 3 r"

definition insert_or_replace :: "sqlval list list \<Rightarrow> sqlval list \<Rightarrow> db_error + sqlval list list" where
  "insert_or_replace scan_hits r =
     (if Null \<in> set (take 5 r) then Inl IntegrityError
      else Inr (filter (\<lambda>x. row_key x \<noteq> row_key r) scan_hits @ [r]))"

text \<open>
  One turn of \<open>db_writer\<close> with a row from the queue: execute, commit, count. An exception
  of \<open>execute\<close> is not caught (the loop catches \<open>asyncio.TimeoutError\<close> only): the table
  and the counter stay as they are and the exception leaves \<open>db_writer\<close>.
\<close>

definition db_writer_step ::
  "sqlval list list \<times> nat \<Rightarrow> hit \<Rightarrow> db_error + sqlval list list \<times> nat" where
  "db_writer_step st row_data =
     (case bind_row row_data of
        Inl e \<Rightarrow> Inl e
      | Inr r \<Rightarrow>
          (case insert_or_replace (fst st) r of
             Inl e \<Rightarrow> Inl e
           | Inr scan_hits \<Rightarrow> Inr (scan_hits, snd st + 1)))"

text \<open>The rows that one turn of \<open>db_writer\<close> stores: \<open>db_writer_step_Inr\<close> below shows
  that the turn succeeds exactly on them.\<close>

definition storable :: "hit \<Rightarrow> bool" where
  "storable h = (int64 (run_id h) \<and> int64 (timestamp_ms h) \<and> oi_usdt h \<noteq> NaN)"

section \<open>The scan\<close>

text \<open>
  \<open>scan_and_store_async\<close> runs one task per symbol and \<open>db_writer\<close> on one event loop.
  Control changes hands only at an \<open>await\<close>, so a run is a sequence of the blocks between
  awaits, and the shared state is the semaphore's value, the counter \<open>scanned\<close>, the queue,
  the table, the counter \<open>inserted\<close> and where \<open>db_writer\<close> stands (\<open>passed_traders\<close> is
  only printed and is left out). A task waits for the semaphore, evaluates its symbol inside \<open>async with semaphore\<close>,
  sleeps \<open>SLEEP_S\<close> still inside unless the evaluation returned early, and is finished when
  it has left the gate.
\<close>

datatype task_phase = Waiting | Running | Sleeping | Finished

text \<open>\<open>db_writer\<close> is in its loop, has left it by \<open>break\<close>, or has raised.\<close>

datatype writer_state = Polling | Stopped | Aborted db_error

record scan =
  semaphore :: nat
  phases :: "task_phase list"
  scanned :: nat
  insert_queue :: "hit list"
  db :: "sqlval list list"
  inserted :: nat
  writer :: writer_state

text \<open>The state when \<open>asyncio.gather\<close> is entered: \<open>Semaphore(10)\<close>, one waiting task per
  symbol, an empty queue, and the table as the connection holds it.\<close>

definition start :: "string list \<Rightarrow> sqlval list list \<Rightarrow> scan" where
  "start symbols tbl =
     \<lparr>semaphore = 10, phases = replicate (length symbols) Waiting, scanned = 0,
      insert_queue = [], db = tbl, inserted = 0, writer = Polling\<rparr>"

text \<open>
  The steps of a run.
  \<^item> \<open>acquire\<close>: a waiting task enters the gate, which the semaphore allows when its value is
    positive, and counts itself in \<open>scanned\<close> (no \<open>await\<close> lies between the two).
  \<^item> \<open>evaluate\<close>: a task in the gate comes to the end of its \<open>try\<close> statement and starts
    the pacing sleep. Its requests touch no shared state and are not steps of their own; the
    rows it emits are put on the queue together (the queue is unbounded, so \<open>put\<close> does
    not wait).
  \<^item> \<open>return_early\<close>: a task in the gate ends its evaluation by a \<open>return\<close> inside the
    \<open>try\<close>, before any row is put: it leaves the gate at once, without the sleep.
    That every evaluation completes is what makes one of these two steps possible for every
    running task.
  \<^item> \<open>release\<close>: the sleep is over and the task leaves the gate.
  \<^item> \<open>drain\<close>: \<open>db_writer\<close> gets a row from the queue and its turn with it
    (\<open>db_writer_step\<close>) succeeds.
  \<^item> \<open>abort\<close>: \<open>db_writer\<close> gets a row from the queue and \<open>execute\<close> raises: the
    exception leaves \<open>db_writer\<close> and \<open>asyncio.gather\<close> hands it to
    \<open>scan_and_store_async\<close>, which ends with it and reports nothing. \<open>gather\<close> does not
    cancel the tasks, so their steps stay possible.
  \<^item> \<open>stop\<close>: \<open>wait_for\<close> timed out on the empty queue and \<open>scanned >= total_symbols\<close>:
    \<open>db_writer\<close> leaves its loop. A timeout with \<open>scanned < total_symbols\<close> changes nothing
    and is not a step.
\<close>

inductive step :: "conv \<Rightarrow> network \<Rightarrow> int \<Rightarrow> string list \<Rightarrow> scan \<Rightarrow> scan \<Rightarrow> bool"
  for C :: conv and net :: network and run :: int and symbols :: "string list" where
  acquire:
    "i < length (phases s) \<Longrightarrow> phases s ! i = Waiting \<Longrightarrow> 0 < semaphore s \<Longrightarrow>
     step C net run symbols s
       (s\<lparr>semaphore := semaphore s - 1, phases := (phases s)[i := Running],
          scanned := scanned s + 1\<rparr>)"
| evaluate:
    "i < length (phases s) \<Longrightarrow> i < length symbols \<Longrightarrow> phases s ! i = Running \<Longrightarrow>
     paced (process_symbol C net run (symbols ! i)) \<Longrightarrow>
     step C net run symbols s
       (s\<lparr>phases := (phases s)[i := Sleeping],
          insert_queue := insert_queue s @ rows (process_symbol C net run (symbols ! i))\<rparr>)"
| return_early:
    "i < length (phases s) \<Longrightarrow> i < length symbols \<Longrightarrow> phases s ! i = Running \<Longrightarrow>
     \<not> paced (process_symbol C net run (symbols ! i)) \<Longrightarrow>
     step C net run symbols s
       (s\<lparr>semaphore := semaphore s + 1, phases := (phases s)[i := Finished]\<rparr>)"
| release:
    "i < length (phases s) \<Longrightarrow> phases s ! i = Sleeping \<Longrightarrow>
     step C net run symbols s
       (s\<lparr>semaphore := semaphore s + 1, phases := (phases s)[i := Finished]\<rparr>)"
| drain:
    "writer s = Polling \<Longrightarrow> insert_queue s = row_data # q \<Longrightarrow>
     db_writer_step (db s, inserted s) row_data = Inr (scan_hits, n) \<Longrightarrow>
     step C net run symbols s (s\<lparr>insert_queue := q, db := scan_hits, inserted := n\<rparr>)"
| abort:
    "writer s = Polling \<Longrightarrow> insert_queue s = row_data # q \<Longrightarrow>
     db_writer_step (db s, inserted s) row_data = Inl e \<Longrightarrow>
     step C net run symbols s (s\<lparr>insert_queue := q, writer := Aborted e\<rparr>)"
| stop:
    "writer s = Polling \<Longrightarrow> insert_queue s = [] \<Longrightarrow> length symbols \<le> scanned s \<Longrightarrow>
     step C net run symbols s (s\<lparr>writer := Stopped\<rparr>)"

inductive reachable ::
  "conv \<Rightarrow> network \<Rightarrow> int \<Rightarrow> string list \<Rightarrow> sqlval list list \<Rightarrow> scan \<Rightarrow> bool"
  for C :: conv and net :: network and run :: int and symbols :: "string list"
    and tbl :: "sqlval list list" where
  init: "reachable C net run symbols tbl (start symbols tbl)"
| after: "reachable C net run symbols tbl s \<Longrightarrow> step C net run symbols s s'
         \<Longrightarrow> reachable C net run symbols tbl s'"

text \<open>A task is in the gate from \<open>acquire\<close> to \<open>release\<close>.\<close>

fun in_gate :: "task_phase \<Rightarrow> bool" where
  "in_gate Running = True"
| "in_gate Sleeping = True"
| "in_gate _ = False"





text \<open>What every state of a run satisfies.\<close>

definition consistent :: "string list \<Rightarrow> scan \<Rightarrow> bool" where
  "consistent symbols s =
     (length (phases s) = length symbols
      \<and> semaphore s + length (filter in_gate (phases s)) = 10
      \<and> scanned s = length (filter (\<lambda>p. p \<noteq> Waiting) (phases s))
      \<and> (writer s = Stopped \<longrightarrow> length symbols \<le> scanned s))"

section \<open>Worked inputs\<close>

text \<open>
  The inputs at which the theorems are evaluated hold JSON numbers only: \<open>float\<close> returns a
  float unchanged and \<open>int\<close> returns an int unchanged, so no string is parsed and no int is
  rounded there, and the conversion table is never consulted; \<open>no_conv\<close> fills its place.
  All the floats written here (0.75, 0.5, 0.25, 2500000, 2499999.5, 5000000, 1/1024, 2) are
  doubles.
\<close>

definition no_conv :: conv where
  "no_conv = \<lparr>str_float = (\<lambda>s. None), int_float = (\<lambda>n. None), str_int = (\<lambda>s. None)\<rparr>"

definition snapshot :: "real \<Rightarrow> real \<Rightarrow> json" where
  "snapshot l s =
     JArr [JObj [(''longAccount'', JFloat (Fin l)), (''shortAccount'', JFloat (Fin s)),
                 (''timestamp'', JInt 1700000000000)]]"

definition snapshot_at :: "real \<Rightarrow> real \<Rightarrow> int \<Rightarrow> json" where
  "snapshot_at l s t =
     JArr [JObj [(''longAccount'', JFloat (Fin l)), (''shortAccount'', JFloat (Fin s)),
                 (''timestamp'', JInt t)]]"

definition snapshot_no_ts :: "real \<Rightarrow> real \<Rightarrow> json" where
  "snapshot_no_ts l s =
     JArr [JObj [(''longAccount'', JFloat (Fin l)), (''shortAccount'', JFloat (Fin s))]]"

definition oi_reply :: "pyfloat \<Rightarrow> json" where
  "oi_reply v = JArr [JObj [(''sumOpenInterestValue'', JFloat v)]]"

definition premium_reply :: json where
  "premium_reply = JObj [(''lastFundingRate'', JFloat (Fin (1 / 1024))), (''markPrice'', JFloat (Fin 2))]"

text \<open>A network that answers 200 on the four gating paths and on the premium index, and fails
  on the two volume paths.\<close>

definition example_net :: "json \<Rightarrow> json \<Rightarrow> json \<Rightarrow> json \<Rightarrow> network" where
  "example_net ta ga tp oi path symb =
     (if path = ''/futures/data/topLongShortAccountRatio'' then Reply 200 (Some ta)
      else if path = ''/futures/data/globalLongShortAccountRatio'' then Reply 200 (Some ga)
      else if path = ''/futures/data/topLongShortPositionRatio'' then Reply 200 (Some tp)
      else if path = ''/futures/data/openInterestHist'' then Reply 200 (Some oi)
      else if path = ''/fapi/v1/premiumIndex'' then Reply 200 (Some premium_reply)
      else Failed)"

text \<open>A network on which every request fails.\<close>

definition dead_net :: network where
  "dead_net path symb = Failed"

definition example_hit :: "string \<Rightarrow> int \<Rightarrow> pyfloat \<Rightarrow> hit" where
  "example_hit tag ts oi =
     \<lparr>run_id = 1, symbol = ''AAAUSDT'', setup_tag = tag, timestamp_ms = ts,
      oi_usdt = oi,
      top_acc_long = Fin 0.75, top_acc_short = Fin 0.75,
      glob_acc_long = Fin 0.75, glob_acc_short = Fin 0.75,
      top_pos_long = Fin 0.75, top_pos_short = Fin 0.75,
      funding_rate = Some (Fin (1 / 1024)), current_price = Some (Fin 2),
      volume_24h = None, volume_2h = None\<rparr>"

text \<open>The row of \<open>scan_hits\<close> that \<open>example_hit tag ts oi\<close> is stored as.\<close>

definition example_row :: "string \<Rightarrow> int \<Rightarrow> real \<Rightarrow> sqlval list" where
  "example_row tag ts oi =
     [Integer 1, Text ''AAAUSDT'', Text tag, Integer ts, Real (Fin oi),
      Real (Fin 0.75), Real (Fin 0.75), Real (Fin 0.75), Real (Fin 0.75),
      Real (Fin 0.75), Real (Fin 0.75),
      Real (Fin (1 / 1024)), Real (Fin 2), Null, Null]"

text \<open>The fractions that three equal snapshots \<open>snapshot l s\<close> parse to.\<close>

definition uniform_ratios :: "real \<Rightarrow> real \<Rightarrow> ratios" where
  "uniform_ratios l s =
     \<lparr>ta_long = Fin l, ta_short = Fin s, ga_long = Fin l, ga_short = Fin s,
      tp_long = Fin l, tp_short = Fin s\<rparr>"

text \<open>The mirror image of six fractions: long and short exchanged in each lens.\<close>

definition mirror :: "ratios \<Rightarrow> ratios" where
  "mirror r =
     \<lparr>ta_long = ta_short r, ta_short = ta_long r, ga_long = ga_short r, ga_short = ga_long r,
      tp_long = tp_short r, tp_short = tp_long r\<rparr>"

text \<open>The four paths of the gating requests.\<close>

abbreviation top_acc_path :: string where
  "top_acc_path \<equiv> ''/futures/data/topLongShortAccountRatio''"

abbreviation glob_acc_path :: string where
  "glob_acc_path \<equiv> ''/futures/data/globalLongShortAccountRatio''"

abbreviation top_pos_path :: string where
  "top_pos_path \<equiv> ''/futures/data/topLongShortPositionRatio''"

abbreviation oi_path :: string where
  "oi_path \<equiv> ''/futures/data/openInterestHist''"

section \<open>Facts about the evaluator\<close>

lemmas thresholds =
  TOP_ACC_SHORT_MIN_def GLOBAL_ACC_SHORT_MIN_def TOP_POS_LONG_MIN_def
  TOP_ACC_LONG_MIN_def GLOBAL_ACC_LONG_MIN_def TOP_POS_SHORT_MIN_def

lemmas example_defs =
  process_symbol_def latest_async_def http_get_async_def check_traders_def check_oi_def f_def
  dict_get_def has_key_def setup_a_def setup_b_def thresholds MIN_OI_USDT_def mk_hit_def
  get_premium_data_async_def get_volume_data_async_def float_if_present_def
  volume_24h_of_def volume_2h_of_def
  no_conv_def snapshot_def snapshot_no_ts_def oi_reply_def premium_reply_def example_net_def
  dead_net_def example_hit_def uniform_ratios_def

text \<open>
  The two doubles are the 53-bit values within half a unit in the last place of the decimals
  0.65 and 0.45. A double that is at least 1/2 is an integer multiple of \<open>2^-53\<close>, one that
  is at least 1/4 an integer multiple of \<open>2^-54\<close>; on such values, comparing with the
  double is comparing with the decimal.
\<close>

lemma threshold_literals:
  "\<bar>5854679515581645 / 2 ^ 53 - (0.65::real)\<bar> < 1 / 2 ^ 54"
  "(2::int) ^ 52 \<le> 5854679515581645" "(5854679515581645::int) < 2 ^ 53"
  "\<bar>8106479329266893 / 2 ^ 54 - (0.45::real)\<bar> < 1 / 2 ^ 55"
  "(2::int) ^ 52 \<le> 8106479329266893" "(8106479329266893::int) < 2 ^ 53"
  by simp_all

lemma ge_065_decimal:
  fixes x :: real
  assumes "x = of_int m / 2 ^ 53 \<or> x < 1 / 2"
  shows "float_ge (Fin x) TOP_ACC_SHORT_MIN \<longleftrightarrow> 0.65 \<le> x"
proof
  assume "float_ge (Fin x) TOP_ACC_SHORT_MIN"
  then have "5854679515581645 / 2 ^ 53 \<le> x" by (simp add: TOP_ACC_SHORT_MIN_def)
  then show "0.65 \<le> x" by simp
next
  assume a: "0.65 \<le> x"
  with assms have x: "x = of_int m / 2 ^ 53" by auto
  with a have "(0.65::real) * 2 ^ 53 \<le> of_int m" by (simp add: field_simps)
  then have "(5854679515581644::real) < of_int m" by simp
  then have "(5854679515581644::int) < m" by linarith
  then have "(5854679515581645::int) \<le> m" by simp
  then have "(5854679515581645::real) \<le> of_int m" by linarith
  with x show "float_ge (Fin x) TOP_ACC_SHORT_MIN"
    by (simp add: TOP_ACC_SHORT_MIN_def field_simps)
qed

lemma ge_045_decimal:
  fixes x :: real
  assumes "x = of_int m / 2 ^ 54 \<or> x < 1 / 4"
  shows "float_ge (Fin x) TOP_POS_LONG_MIN \<longleftrightarrow> 0.45 \<le> x"
proof
  assume "float_ge (Fin x) TOP_POS_LONG_MIN"
  then have "8106479329266893 / 2 ^ 54 \<le> x" by (simp add: TOP_POS_LONG_MIN_def)
  then show "0.45 \<le> x" by simp
next
  assume a: "0.45 \<le> x"
  with assms have x: "x = of_int m / 2 ^ 54" by auto
  with a have "(0.45::real) * 2 ^ 54 \<le> of_int m" by (simp add: field_simps)
  then have "(8106479329266892::real) < of_int m" by simp
  then have "(8106479329266892::int) < m" by linarith
  then have "(8106479329266893::int) \<le> m" by simp
  then have "(8106479329266893::real) \<le> of_int m" by linarith
  with x show "float_ge (Fin x) TOP_POS_LONG_MIN"
    by (simp add: TOP_POS_LONG_MIN_def field_simps)
qed

lemma process_symbol_Return:
  assumes "check_traders C (latest_async net top_acc_path s) (latest_async net glob_acc_path s)
             (latest_async net top_pos_path s) = Return"
  shows "process_symbol C net run s =
           \<lparr>calls = [top_acc_path, glob_acc_path, top_pos_path], passed = False, rows = [],
            failed = False, paced = False\<rparr>"
  using assms by (simp add: process_symbol_def)

lemma process_symbol_Raised:
  assumes "check_traders C (latest_async net top_acc_path s) (latest_async net glob_acc_path s)
             (latest_async net top_pos_path s) = Raised"
  shows "process_symbol C net run s =
           \<lparr>calls = [top_acc_path, glob_acc_path, top_pos_path], passed = False, rows = [],
            failed = True, paced = True\<rparr>"
  using assms by (simp add: process_symbol_def)

lemma process_symbol_oi_stop:
  assumes "check_traders C (latest_async net top_acc_path s) (latest_async net glob_acc_path s)
             (latest_async net top_pos_path s) = Go (r, ts)"
    and "check_oi C (latest_async net oi_path s) \<in> {Return, Raised}"
  shows "rows (process_symbol C net run s) = []"
    and "calls (process_symbol C net run s) = [top_acc_path, glob_acc_path, top_pos_path, oi_path]"
    and "passed (process_symbol C net run s)"
  using assms by (auto simp add: process_symbol_def Let_def)

lemma process_symbol_Go:
  assumes "check_traders C (latest_async net top_acc_path s) (latest_async net glob_acc_path s)
             (latest_async net top_pos_path s) = Go (r, ts)"
    and "check_oi C (latest_async net oi_path s) = Go oi"
  shows "rows (process_symbol C net run s) =
           (if setup_a r
            then [mk_hit run s ''CROWD_SHORT__TOP_LONG'' ts oi r
                    (get_premium_data_async C net s) (get_volume_data_async C net s)]
            else []) @
           (if setup_b r
            then [mk_hit run s ''CROWD_LONG__TOP_SHORT'' ts oi r
                    (get_premium_data_async C net s) (get_volume_data_async C net s)]
            else [])"
  using assms by (simp add: process_symbol_def Let_def)

lemma rows_origin:
  assumes "h \<in> set (rows (process_symbol C net run s))"
  obtains r ts oi where
    "check_traders C (latest_async net top_acc_path s) (latest_async net glob_acc_path s)
       (latest_async net top_pos_path s) = Go (r, ts)"
    "check_oi C (latest_async net oi_path s) = Go oi"
    "(setup_a r \<and> h = mk_hit run s ''CROWD_SHORT__TOP_LONG'' ts oi r
                    (get_premium_data_async C net s) (get_volume_data_async C net s))
     \<or> (setup_b r \<and> h = mk_hit run s ''CROWD_LONG__TOP_SHORT'' ts oi r
                    (get_premium_data_async C net s) (get_volume_data_async C net s))"
proof (cases "check_traders C (latest_async net top_acc_path s) (latest_async net glob_acc_path s)
       (latest_async net top_pos_path s)")
  case Return
  with assms show ?thesis by (simp add: process_symbol_Return)
next
  case Raised
  with assms show ?thesis by (simp add: process_symbol_Raised)
next
  case (Go p)
  obtain r ts where p: "p = (r, ts)" by (cases p)
  note tr = Go[unfolded p]
  show ?thesis
  proof (cases "check_oi C (latest_async net oi_path s)")
    case Return
    with assms process_symbol_oi_stop(1)[OF tr] show ?thesis by simp
  next
    case Raised
    with assms process_symbol_oi_stop(1)[OF tr] show ?thesis by simp
  next
    case (Go oi)
    from assms show ?thesis
      unfolding process_symbol_Go[OF tr Go]
      using that[OF tr Go] by (auto split: if_splits)
  qed
qed


lemma check_oi_Go:
  "check_oi C oi = Go v \<Longrightarrow> \<not> float_lt_int v MIN_OI_USDT"
  by (auto simp: check_oi_def split: if_splits json.splits option.splits)

lemma ratios_of_None:
  "a = None \<or> b = None \<or> c = None \<or> d = None \<or> e = None \<or> g = None
   \<Longrightarrow> ratios_of a b c d e g = None"
  by (cases a; cases b; cases c; cases d; cases e; cases g) auto

lemma ratios_of_Some:
  "ratios_of a b c d e g = Some r \<Longrightarrow>
     a = Some (ta_long r) \<and> b = Some (ta_short r) \<and> c = Some (ga_long r)
     \<and> d = Some (ga_short r) \<and> e = Some (tp_long r) \<and> g = Some (tp_short r)"
  by (cases a; cases b; cases c; cases d; cases e; cases g) auto

lemma check_traders_falsy:
  "\<not> truthy ta \<or> \<not> truthy ga \<or> \<not> truthy tp \<Longrightarrow> check_traders C ta ga tp = Return"
  by (auto simp: check_traders_def)

lemma check_traders_unparsed:
  assumes "f C (dict_get ta ''longAccount'' JNull) = None \<or> f C (dict_get ta ''shortAccount'' JNull) = None
         \<or> f C (dict_get ga ''longAccount'' JNull) = None \<or> f C (dict_get ga ''shortAccount'' JNull) = None
         \<or> f C (dict_get tp ''longAccount'' JNull) = None \<or> f C (dict_get tp ''shortAccount'' JNull) = None"
  shows "check_traders C (JObj ta) (JObj ga) (JObj tp) = Return"
  using ratios_of_None[OF assms] by (simp add: check_traders_def)

lemma f_JNull: "f C JNull = None"
  by (simp add: f_def)

lemma f_Some_has_key:
  "f C (dict_get d k JNull) = Some v \<Longrightarrow> d \<noteq> []"
  by (auto simp: dict_get_def f_JNull)




lemma check_traders_Go_ts:
  assumes "check_traders C top_acc glob_acc top_pos = Go (r, ts)"
  obtains ta where "top_acc = JObj ta" "py_int C (dict_get ta ''timestamp'' (JInt 0)) = Some ts"
proof (cases top_acc)
  case (JObj ta)
  with assms have "py_int C (dict_get ta ''timestamp'' (JInt 0)) = Some ts"
    by (simp add: check_traders_def split: if_splits json.splits option.splits)
  with JObj that show ?thesis by simp
qed (use assms in \<open>simp_all add: check_traders_def split: if_splits\<close>)

lemma latest_async_cong:
  "net' p s = net p s \<Longrightarrow> latest_async net' p s = latest_async net p s"
  by (simp add: latest_async_def http_get_async_def)

lemma row_timestamp:
  assumes "h \<in> set (rows (process_symbol C net run s))"
  obtains ta where "latest_async net top_acc_path s = JObj ta"
    "py_int C (dict_get ta ''timestamp'' (JInt 0)) = Some (timestamp_ms h)"
proof -
  from assms obtain r ts oi where
    tr: "check_traders C (latest_async net top_acc_path s) (latest_async net glob_acc_path s)
       (latest_async net top_pos_path s) = Go (r, ts)"
    and h: "(setup_a r \<and> h = mk_hit run s ''CROWD_SHORT__TOP_LONG'' ts oi r
                    (get_premium_data_async C net s) (get_volume_data_async C net s))
     \<or> (setup_b r \<and> h = mk_hit run s ''CROWD_LONG__TOP_SHORT'' ts oi r
                    (get_premium_data_async C net s) (get_volume_data_async C net s))"
    by (rule rows_origin)
  from h have "timestamp_ms h = ts" by (auto simp: mk_hit_def)
  with tr that show ?thesis by (auto elim: check_traders_Go_ts)
qed

lemma dict_get_append_other:
  "k \<noteq> k' \<Longrightarrow> dict_get (d @ [(k', v)]) k dflt = dict_get d k dflt"
  by (simp add: dict_get_def map_add_def split: option.splits)

lemma dict_get_append_absent:
  "map_of d k = None \<Longrightarrow> dict_get (d @ [(k, v)]) k dflt = v"
  by (simp add: dict_get_def map_add_def)

lemma absent_timestamp_is_zero:
  assumes "\<not> has_key ta ''timestamp''" "ta \<noteq> []"
  shows "check_traders C (JObj ta) ga tp = check_traders C (JObj (ta @ [(''timestamp'', JInt 0)])) ga tp"
proof -
  have absent: "map_of ta ''timestamp'' = None" using assms(1) by (simp add: has_key_def)
  have eqs: "dict_get ta ''timestamp'' (JInt 0) = JInt 0"
    "dict_get (ta @ [(''timestamp'', JInt 0)]) ''timestamp'' (JInt 0) = JInt 0"
    "dict_get (ta @ [(''timestamp'', JInt 0)]) ''longAccount'' JNull = dict_get ta ''longAccount'' JNull"
    "dict_get (ta @ [(''timestamp'', JInt 0)]) ''shortAccount'' JNull = dict_get ta ''shortAccount'' JNull"
    using absent by (simp_all add: dict_get_def map_add_def split: option.splits)
  show ?thesis using assms(2) by (cases ga; cases tp; simp add: check_traders_def eqs cong: option.case_cong)
qed

lemma absent_default_zero:
  assumes "\<not> has_key ta ''timestamp''"
    and "py_int C (dict_get ta ''timestamp'' (JInt 0)) = Some t"
  shows "t = 0"
proof -
  from assms(1) have "dict_get ta ''timestamp'' (JInt 0) = JInt 0"
    by (simp add: has_key_def dict_get_def)
  with assms(2) show ?thesis by simp
qed

lemma filter_same_key:
  "filter (\<lambda>x. row_key x = k) (filter (\<lambda>x. row_key x \<noteq> k) xs) = []"
  by (induction xs) auto

lemma bind_float_Null: "bind_float x = Null \<longleftrightarrow> x = NaN" "Null = bind_float x \<longleftrightarrow> x = NaN"
  by (simp_all add: bind_float_def)

lemma bind_row_key:
  assumes "bind_row h1 = Inr r1" "bind_row h2 = Inr r2"
  shows "row_key r1 = row_key r2 \<longleftrightarrow> hit_key h1 = hit_key h2"
  using assms by (auto simp: bind_row_def row_key_def hit_key_def split: if_splits)

lemma bind_row_Inr: "(\<exists>r. bind_row h = Inr r) \<longleftrightarrow> int64 (run_id h) \<and> int64 (timestamp_ms h)"
  by (simp add: bind_row_def)

lemma bind_row_not_null:
  "bind_row h = Inr r \<Longrightarrow> Null \<in> set (take 5 r) \<longleftrightarrow> oi_usdt h = NaN"
  by (auto simp: bind_row_def bind_float_Null take_Cons' split: if_splits)

lemma db_writer_step_Inr:
  "db_writer_step (t, n) h = Inr st \<longleftrightarrow>
     storable h \<and> (\<exists>r. bind_row h = Inr r \<and> st = (filter (\<lambda>x. row_key x \<noteq> row_key r) t @ [r], n + 1))"
proof (cases "bind_row h")
  case (Inl e)
  then have "\<not> (int64 (run_id h) \<and> int64 (timestamp_ms h))"
    using bind_row_Inr[of h] by auto
  with Inl show ?thesis by (simp add: db_writer_step_def storable_def)
next
  case (Inr r)
  then have "int64 (run_id h) \<and> int64 (timestamp_ms h)"
    using bind_row_Inr[of h] by auto
  with Inr bind_row_not_null[OF Inr] show ?thesis
    by (auto simp: db_writer_step_def insert_or_replace_def storable_def)
qed

lemma storable_written:
  "storable h \<Longrightarrow> \<exists>st. db_writer_step (t, n) h = Inr st"
  using bind_row_Inr[of h] by (auto simp: db_writer_step_Inr storable_def)

lemma not_storable_raises:
  "\<not> storable h \<Longrightarrow> \<exists>e. db_writer_step (t, n) h = Inl e"
  using db_writer_step_Inr[of t n h] by (cases "db_writer_step (t, n) h") auto

lemma emitted_rows_pass_filters:
  assumes "h \<in> set (rows (process_symbol C net run s))"
  shows "\<exists>r. ta_long r = top_acc_long h \<and> ta_short r = top_acc_short h
            \<and> ga_long r = glob_acc_long h \<and> ga_short r = glob_acc_short h
            \<and> tp_long r = top_pos_long h \<and> tp_short r = top_pos_short h
            \<and> (setup_tag h = ''CROWD_SHORT__TOP_LONG'' \<and> setup_a r
               \<or> setup_tag h = ''CROWD_LONG__TOP_SHORT'' \<and> setup_b r)
            \<and> \<not> float_lt_int (oi_usdt h) MIN_OI_USDT"
proof -
  from assms obtain r ts oi where
    tr: "check_traders C (latest_async net top_acc_path s) (latest_async net glob_acc_path s)
       (latest_async net top_pos_path s) = Go (r, ts)"
    and oi: "check_oi C (latest_async net oi_path s) = Go oi"
    and h: "(setup_a r \<and> h = mk_hit run s ''CROWD_SHORT__TOP_LONG'' ts oi r
                    (get_premium_data_async C net s) (get_volume_data_async C net s))
     \<or> (setup_b r \<and> h = mk_hit run s ''CROWD_LONG__TOP_SHORT'' ts oi r
                    (get_premium_data_async C net s) (get_volume_data_async C net s))"
    by (rule rows_origin)
  from h check_oi_Go[OF oi] show ?thesis
    by (intro exI[of _ r]) (auto simp: mk_hit_def)
qed

lemma http_get_async_absent:
  assumes "net path s = Failed \<or> (\<exists>status body. net path s = Reply status body \<and> status \<noteq> 200)
           \<or> net path s = Reply 200 None"
  shows "http_get_async net path s = JNull" and "latest_async net path s = JNull"
  using assms by (auto simp: latest_async_def http_get_async_def)

text \<open>Evaluations at the worked inputs.\<close>

lemma example_traders:
  "check_traders no_conv
     (latest_async (example_net (snapshot 0.75 0.75) (snapshot 0.75 0.75) (snapshot 0.75 0.75) oi)
        top_acc_path ''AAAUSDT'')
     (latest_async (example_net (snapshot 0.75 0.75) (snapshot 0.75 0.75) (snapshot 0.75 0.75) oi)
        glob_acc_path ''AAAUSDT'')
     (latest_async (example_net (snapshot 0.75 0.75) (snapshot 0.75 0.75) (snapshot 0.75 0.75) oi)
        top_pos_path ''AAAUSDT'')
   = Go (uniform_ratios 0.75 0.75, 1700000000000)"
  by (simp add: example_defs)


lemma example_both:
  "setup_a (uniform_ratios 0.75 0.75)" "setup_b (uniform_ratios 0.75 0.75)"
  "check_oi no_conv (latest_async (example_net ta ga tp (oi_reply (Fin 2500000))) oi_path ''AAAUSDT'')
     = Go (Fin 2500000)"
  by (simp_all add: example_defs)

lemma written_table:
  assumes "storable h"
  obtains r where "bind_row h = Inr r"
    and "db_writer_step (t, n) h = Inr (filter (\<lambda>x. row_key x \<noteq> row_key r) t @ [r], n + 1)"
proof -
  from storable_written[OF assms] obtain st where "db_writer_step (t, n) h = Inr st" ..
  then show ?thesis using that by (auto simp: db_writer_step_Inr)
qed

lemma rows_lenses_nonempty:
  assumes "h \<in> set (rows (process_symbol C net run s))"
    and "latest_async net glob_acc_path s = JObj ga"
    and "latest_async net top_pos_path s = JObj tp"
  shows "f C (dict_get ga ''longAccount'' JNull) \<noteq> None"
    and "f C (dict_get tp ''longAccount'' JNull) \<noteq> None"
proof -
  from assms(1) obtain ta where ta: "latest_async net top_acc_path s = JObj ta"
    by (rule row_timestamp)
  from assms(1) obtain r ts where
    "check_traders C (latest_async net top_acc_path s) (latest_async net glob_acc_path s)
       (latest_async net top_pos_path s) = Go (r, ts)"
    by (rule rows_origin)
  then have go: "check_traders C (JObj ta) (JObj ga) (JObj tp) = Go (r, ts)"
    by (simp add: ta assms(2,3))
  show "f C (dict_get ga ''longAccount'' JNull) \<noteq> None"
  proof
    assume "f C (dict_get ga ''longAccount'' JNull) = None"
    then have "check_traders C (JObj ta) (JObj ga) (JObj tp) = Return"
      by (intro check_traders_unparsed) simp
    with go show False by simp
  qed
  show "f C (dict_get tp ''longAccount'' JNull) \<noteq> None"
  proof
    assume "f C (dict_get tp ''longAccount'' JNull) = None"
    then have "check_traders C (JObj ta) (JObj ga) (JObj tp) = Return"
      by (intro check_traders_unparsed) simp
    with go show False by simp
  qed
qed

lemma agree_nonempty:
  assumes "f C (dict_get d ''longAccount'' JNull) \<noteq> None"
    and "\<forall>k. k \<noteq> ''timestamp'' \<longrightarrow> map_of d' k = map_of d k"
  shows "d \<noteq> []" "d' \<noteq> []"
proof -
  from assms(1) obtain v where v: "f C (dict_get d ''longAccount'' JNull) = Some v" by auto
  then show "d \<noteq> []" by (rule f_Some_has_key)
  from assms(2) have "dict_get d' ''longAccount'' JNull = dict_get d ''longAccount'' JNull"
    by (simp add: dict_get_def)
  with v have "f C (dict_get d' ''longAccount'' JNull) = Some v" by simp
  then show "d' \<noteq> []" by (rule f_Some_has_key)
qed


lemma http_get_async_cong:
  "net' p s = net p s \<Longrightarrow> http_get_async net' p s = http_get_async net p s"
  by (simp add: http_get_async_def)

lemma check_traders_other_entries:
  assumes "\<forall>k. k \<noteq> ''timestamp'' \<longrightarrow> map_of ga' k = map_of ga k" "ga' = [] \<longleftrightarrow> ga = []"
    and "\<forall>k. k \<noteq> ''timestamp'' \<longrightarrow> map_of tp' k = map_of tp k" "tp' = [] \<longleftrightarrow> tp = []"
  shows "check_traders C top_acc (JObj ga') (JObj tp') = check_traders C top_acc (JObj ga) (JObj tp)"
proof -
  have eqs: "dict_get ga' ''longAccount'' JNull = dict_get ga ''longAccount'' JNull"
    "dict_get ga' ''shortAccount'' JNull = dict_get ga ''shortAccount'' JNull"
    "dict_get tp' ''longAccount'' JNull = dict_get tp ''longAccount'' JNull"
    "dict_get tp' ''shortAccount'' JNull = dict_get tp ''shortAccount'' JNull"
    using assms(1,3) by (simp_all add: dict_get_def)
  show ?thesis using assms(2,4)
    by (cases top_acc) (simp_all add: check_traders_def eqs)
qed

lemma process_symbol_other_timestamps:
  assumes same: "\<forall>p. p \<noteq> glob_acc_path \<and> p \<noteq> top_pos_path \<longrightarrow> net' p s = net p s"
    and ga: "latest_async net glob_acc_path s = JObj ga" "latest_async net' glob_acc_path s = JObj ga'"
      "\<forall>k. k \<noteq> ''timestamp'' \<longrightarrow> map_of ga' k = map_of ga k" "ga' = [] \<longleftrightarrow> ga = []"
    and tp: "latest_async net top_pos_path s = JObj tp" "latest_async net' top_pos_path s = JObj tp'"
      "\<forall>k. k \<noteq> ''timestamp'' \<longrightarrow> map_of tp' k = map_of tp k" "tp' = [] \<longleftrightarrow> tp = []"
  shows "process_symbol C net' run s = process_symbol C net run s"
proof -
  have ta: "latest_async net' top_acc_path s = latest_async net top_acc_path s"
    and oi: "latest_async net' oi_path s = latest_async net oi_path s"
    by (rule latest_async_cong, simp add: same)+
  have "http_get_async net' ''/fapi/v1/premiumIndex'' s = http_get_async net ''/fapi/v1/premiumIndex'' s"
    "http_get_async net' ''/fapi/v1/ticker/24hr'' s = http_get_async net ''/fapi/v1/ticker/24hr'' s"
    "http_get_async net' ''/fapi/v1/klines'' s = http_get_async net ''/fapi/v1/klines'' s"
    by (rule http_get_async_cong, simp add: same)+
  then have enrich: "get_premium_data_async C net' s = get_premium_data_async C net s"
    "get_volume_data_async C net' s = get_volume_data_async C net s"
    by (simp_all add: get_premium_data_async_def get_volume_data_async_def)
  have ct: "check_traders C x (JObj ga') (JObj tp') = check_traders C x (JObj ga) (JObj tp)" for x
    using ga(3,4) tp(3,4) by (rule check_traders_other_entries)
  show ?thesis
    by (simp add: process_symbol_def ta ga(1,2) tp(1,2) ct oi enrich
          cong: stage.case_cong prod.case_cong)
qed

lemma example_other_lenses:
  "\<forall>p. p \<noteq> glob_acc_path \<and> p \<noteq> top_pos_path \<longrightarrow>
     example_net ta ga' tp' oi p s = example_net ta ga tp oi p s"
  "latest_async (example_net ta (snapshot l sh) tp oi) glob_acc_path s
     = JObj [(''longAccount'', JFloat (Fin l)), (''shortAccount'', JFloat (Fin sh)),
             (''timestamp'', JInt 1700000000000)]"
  "latest_async (example_net ta (snapshot_no_ts l sh) tp oi) glob_acc_path s
     = JObj [(''longAccount'', JFloat (Fin l)), (''shortAccount'', JFloat (Fin sh))]"
  "latest_async (example_net ta ga (snapshot l sh) oi) top_pos_path s
     = JObj [(''longAccount'', JFloat (Fin l)), (''shortAccount'', JFloat (Fin sh)),
             (''timestamp'', JInt 1700000000000)]"
  "latest_async (example_net ta ga (snapshot_at l sh t) oi) top_pos_path s
     = JObj [(''longAccount'', JFloat (Fin l)), (''shortAccount'', JFloat (Fin sh)),
             (''timestamp'', JInt t)]"
  by (simp_all add: example_net_def latest_async_def http_get_async_def snapshot_def
      snapshot_no_ts_def snapshot_at_def)




lemma count_update:
  "i < length xs \<Longrightarrow>
     length (filter P (xs[i := y])) + (if P (xs ! i) then 1 else 0)
       = length (filter P xs) + (if P y then 1 else 0)"
proof (induction xs arbitrary: i)
  case Nil
  then show ?case by simp
next
  case (Cons x xs)
  show ?case
  proof (cases i)
    case 0
    then show ?thesis by simp
  next
    case (Suc j)
    with Cons.prems have "j < length xs" by simp
    from Cons.IH[OF this] Suc show ?thesis by simp
  qed
qed

lemma consistent_start: "consistent symbols (start symbols tbl)"
  by (simp add: consistent_def start_def)

lemma consistent_step:
  assumes "step C net run symbols s s'" and inv: "consistent symbols s"
  shows "consistent symbols s'"
  using assms(1)
proof cases
  case (acquire i)
  with inv count_update[of i "phases s" in_gate Running]
    count_update[of i "phases s" "\<lambda>p. p \<noteq> Waiting" Running]
  show ?thesis by (auto simp: consistent_def)
next
  case (evaluate i)
  with inv count_update[of i "phases s" in_gate Sleeping]
    count_update[of i "phases s" "\<lambda>p. p \<noteq> Waiting" Sleeping]
  show ?thesis by (auto simp: consistent_def)
next
  case (return_early i)
  with inv count_update[of i "phases s" in_gate Finished]
    count_update[of i "phases s" "\<lambda>p. p \<noteq> Waiting" Finished]
  show ?thesis by (auto simp: consistent_def)
next
  case (release i)
  with inv count_update[of i "phases s" in_gate Finished]
    count_update[of i "phases s" "\<lambda>p. p \<noteq> Waiting" Finished]
  show ?thesis by (auto simp: consistent_def)
next
  case (drain row_data q scan_hits n)
  with inv show ?thesis by (simp add: consistent_def)
next
  case (abort row_data q e)
  with inv show ?thesis by (simp add: consistent_def)
next
  case stop
  with inv show ?thesis by (simp add: consistent_def)
qed

lemma reachable_consistent:
  "reachable C net run symbols tbl s \<Longrightarrow> consistent symbols s"
  by (induction rule: reachable.induct) (auto intro: consistent_start consistent_step)





lemma waiting_stays:
  assumes "step C net run symbols s s'" "semaphore s = 0"
    "i < length (phases s)" "phases s ! i = Waiting"
  shows "phases s' ! i = Waiting"
  using assms(1)
proof cases
  case (acquire j)
  with assms show ?thesis by simp
next
  case (evaluate j)
  with assms show ?thesis by (cases "i = j") auto
next
  case (return_early j)
  with assms show ?thesis by (cases "i = j") auto
next
  case (release j)
  with assms show ?thesis by (cases "i = j") auto
next
  case (drain row_data q scan_hits n)
  with assms show ?thesis by simp
next
  case (abort row_data q e)
  with assms show ?thesis by simp
next
  case stop
  with assms show ?thesis by simp
qed

lemma stop_only_empty:
  assumes "step C net run symbols s s'" "writer s = Polling" "writer s' = Stopped"
  shows "insert_queue s = [] \<and> length symbols \<le> scanned s"
  using assms by cases simp_all


lemma relpow_reachable:
  "(step C net run symbols ^^ k) (start symbols tbl) s \<Longrightarrow> reachable C net run symbols tbl s"
proof (induction k arbitrary: s)
  case 0
  then show ?case by (auto intro: reachable.init)
next
  case (Suc k)
  then obtain t where "(step C net run symbols ^^ k) (start symbols tbl) t" "step C net run symbols t s"
    by auto
  with Suc.IH show ?case by (blast intro: reachable.after)
qed




lemma acquired_prefix:
  assumes "k \<le> 10" "k \<le> length symbols"
  shows "reachable C net run symbols tbl
           \<lparr>semaphore = 10 - k,
            phases = replicate k Running @ replicate (length symbols - k) Waiting,
            scanned = k, insert_queue = [], db = tbl, inserted = 0, writer = Polling\<rparr>"
  using assms
proof (induction k)
  case 0
  have "reachable C net run symbols tbl (start symbols tbl)" by (rule reachable.init)
  then show ?case by (simp add: start_def)
next
  case (Suc k)
  let ?s = "\<lparr>semaphore = 10 - k,
            phases = replicate k Running @ replicate (length symbols - k) Waiting,
            scanned = k, insert_queue = [], db = tbl, inserted = 0, writer = Polling\<rparr>"
  from Suc have r: "reachable C net run symbols tbl ?s" by simp
  from Suc.prems have w: "replicate (length symbols - k) Waiting
      = Waiting # replicate (length symbols - Suc k) Waiting"
    by (cases "length symbols - k") (auto simp: Suc_diff_Suc)
  have "step C net run symbols ?s
          (?s\<lparr>semaphore := semaphore ?s - 1, phases := (phases ?s)[k := Running],
              scanned := scanned ?s + 1\<rparr>)"
    using Suc.prems by (intro step.acquire) (simp_all add: nth_append w)
  with r have "reachable C net run symbols tbl
          (?s\<lparr>semaphore := semaphore ?s - 1, phases := (phases ?s)[k := Running],
              scanned := scanned ?s + 1\<rparr>)"
    by (rule reachable.after)
  then show ?case by (simp add: w list_update_append replicate_app_Cons_same)
qed


text \<open>Runs at the worked inputs.\<close>

lemmas sink_defs =
  db_writer_step_def bind_row_def insert_or_replace_def row_key_def int64_def bind_float_def
  bind_optional_def example_hit_def example_row_def







section \<open>The cheap filter\<close>

text \<open>
  C2. The evaluator's Setup A predicate is the conjunction of three comparisons,
  top-account-short >= 0.65, global-account-short >= 0.65 and top-position-long >= 0.45 (the
  float literals, that is, the doubles written out below; \<open>ge_065_decimal\<close> and
  \<open>ge_045_decimal\<close> relate them to the decimals); Setup B is its mirror image, with long
  and short exchanged in each lens; and the two are decided independently over the same
  fractions: each of the four combinations of outcomes occurs.
\<close>

theorem setup_predicates:
  "(setup_a r \<longleftrightarrow>
      float_ge (ta_short r) (Fin (5854679515581645 / 2 ^ 53))
      \<and> float_ge (ga_short r) (Fin (5854679515581645 / 2 ^ 53))
      \<and> float_ge (tp_long r) (Fin (8106479329266893 / 2 ^ 54)))
   \<and> (setup_b r \<longleftrightarrow>
      float_ge (ta_long r) (Fin (5854679515581645 / 2 ^ 53))
      \<and> float_ge (ga_long r) (Fin (5854679515581645 / 2 ^ 53))
      \<and> float_ge (tp_short r) (Fin (8106479329266893 / 2 ^ 54)))
   \<and> setup_b r = setup_a (mirror r)
   \<and> (setup_a (uniform_ratios 0.75 0.75) \<and> setup_b (uniform_ratios 0.75 0.75))
   \<and> (setup_a (uniform_ratios 0.5 0.75) \<and> \<not> setup_b (uniform_ratios 0.5 0.75))
   \<and> (\<not> setup_a (uniform_ratios 0.75 0.5) \<and> setup_b (uniform_ratios 0.75 0.5))
   \<and> (\<not> setup_a (uniform_ratios 0.25 0.25) \<and> \<not> setup_b (uniform_ratios 0.25 0.25))"
  by (simp add: setup_a_def setup_b_def mirror_def uniform_ratios_def thresholds)

text \<open>
  C7. If any of the three lens requests yields no data, or the three snapshots are dicts and
  any of the six ratio fields fails to parse (\<open>f\<close> returns \<open>None\<close>), the evaluation puts no
  row on the queue and requests nothing after the three lens paths: no open interest, no
  enrichment. It ends by a plain return: not in the \<open>except\<close> branch, and without the
  pacing sleep.
\<close>

theorem insufficient_data_stops:
  assumes "latest_async net top_acc_path s = JNull
         \<or> latest_async net glob_acc_path s = JNull
         \<or> latest_async net top_pos_path s = JNull
         \<or> (\<exists>ta ga tp.
               latest_async net top_acc_path s = JObj ta
             \<and> latest_async net glob_acc_path s = JObj ga
             \<and> latest_async net top_pos_path s = JObj tp
             \<and> (f C (dict_get ta ''longAccount'' JNull) = None
                \<or> f C (dict_get ta ''shortAccount'' JNull) = None
                \<or> f C (dict_get ga ''longAccount'' JNull) = None
                \<or> f C (dict_get ga ''shortAccount'' JNull) = None
                \<or> f C (dict_get tp ''longAccount'' JNull) = None
                \<or> f C (dict_get tp ''shortAccount'' JNull) = None))"
  shows "process_symbol C net run s =
           \<lparr>calls = [top_acc_path, glob_acc_path, top_pos_path],
            passed = False, rows = [], failed = False, paced = False\<rparr>"
proof -
  let ?stop = "check_traders C (latest_async net top_acc_path s) (latest_async net glob_acc_path s)
          (latest_async net top_pos_path s) = Return"
  let ?unparsed = "\<lambda>ta ga tp.
        f C (dict_get ta ''longAccount'' JNull) = None \<or> f C (dict_get ta ''shortAccount'' JNull) = None
      \<or> f C (dict_get ga ''longAccount'' JNull) = None \<or> f C (dict_get ga ''shortAccount'' JNull) = None
      \<or> f C (dict_get tp ''longAccount'' JNull) = None \<or> f C (dict_get tp ''shortAccount'' JNull) = None"
  from assms consider
      (no_data) "latest_async net top_acc_path s = JNull \<or> latest_async net glob_acc_path s = JNull
                 \<or> latest_async net top_pos_path s = JNull"
    | (unparsed) ta ga tp where "latest_async net top_acc_path s = JObj ta"
        "latest_async net glob_acc_path s = JObj ga" "latest_async net top_pos_path s = JObj tp"
        "?unparsed ta ga tp"
    by blast
  then have ?stop
  proof cases
    case no_data
    then show ?thesis by (auto simp: check_traders_falsy)
  next
    case unparsed
    then show ?thesis by (simp add: check_traders_unparsed)
  qed
  then show ?thesis by (rule process_symbol_Return)
qed

text \<open>
  The theorem at two inputs: every request fails; and the three requests answer, but the
  top-account snapshot has no \<open>longAccount\<close>.
\<close>

theorem insufficient_data_stops_witness:
  "latest_async dead_net top_acc_path ''AAAUSDT'' = JNull
   \<and> process_symbol no_conv dead_net 1 ''AAAUSDT'' =
       \<lparr>calls = [top_acc_path, glob_acc_path, top_pos_path],
        passed = False, rows = [], failed = False, paced = False\<rparr>
   \<and> f no_conv (dict_get [(''shortAccount'', JFloat (Fin 0.75))] ''longAccount'' JNull) = None
   \<and> process_symbol no_conv
        (example_net (JArr [JObj [(''shortAccount'', JFloat (Fin 0.75))]]) (snapshot 0.75 0.75)
           (snapshot 0.75 0.75) (oi_reply (Fin 2500000))) 1 ''AAAUSDT'' =
       \<lparr>calls = [top_acc_path, glob_acc_path, top_pos_path],
        passed = False, rows = [], failed = False, paced = False\<rparr>"
proof -
  let ?net = "example_net (JArr [JObj [(''shortAccount'', JFloat (Fin 0.75))]]) (snapshot 0.75 0.75)
           (snapshot 0.75 0.75) (oi_reply (Fin 2500000))"
  have dead: "latest_async dead_net top_acc_path ''AAAUSDT'' = JNull"
    by (simp add: latest_async_def http_get_async_def dead_net_def)
  have lens: "latest_async ?net top_acc_path ''AAAUSDT'' = JObj [(''shortAccount'', JFloat (Fin 0.75))]"
    "latest_async ?net glob_acc_path ''AAAUSDT'' =
       JObj [(''longAccount'', JFloat (Fin 0.75)), (''shortAccount'', JFloat (Fin 0.75)),
             (''timestamp'', JInt 1700000000000)]"
    "latest_async ?net top_pos_path ''AAAUSDT'' =
       JObj [(''longAccount'', JFloat (Fin 0.75)), (''shortAccount'', JFloat (Fin 0.75)),
             (''timestamp'', JInt 1700000000000)]"
    by (simp_all add: latest_async_def http_get_async_def example_net_def snapshot_def)
  have unparsed: "f no_conv (dict_get [(''shortAccount'', JFloat (Fin 0.75))] ''longAccount'' JNull) = None"
    by (simp add: f_def dict_get_def)
  have one: "process_symbol no_conv dead_net 1 ''AAAUSDT'' =
       \<lparr>calls = [top_acc_path, glob_acc_path, top_pos_path],
        passed = False, rows = [], failed = False, paced = False\<rparr>"
    using dead by (intro insufficient_data_stops) simp
  have two: "process_symbol no_conv ?net 1 ''AAAUSDT'' =
       \<lparr>calls = [top_acc_path, glob_acc_path, top_pos_path],
        passed = False, rows = [], failed = False, paced = False\<rparr>"
    using lens unparsed by (intro insufficient_data_stops) blast
  from dead one unparsed two show ?thesis by (intro conjI)
qed

section \<open>The open-interest gate\<close>



section \<open>The timestamp of a row\<close>

text \<open>
  C10. The timestamp of every row on the queue is \<open>int(top_acc.get("timestamp", 0))\<close> of the
  top-account snapshot; it is 0 when that dict has no such key, and a non-empty dict without
  the key is evaluated exactly as the same dict with \<open>"timestamp": 0\<close> added, so the absence
  rejects nothing. Two evaluations of a symbol whose top-account request got the same reply
  give all their rows the same timestamp, whatever the other requests returned. And the
  other two lenses' timestamps have no influence at all: when the replies of the
  global-account and top-position requests are replaced by replies whose snapshots differ
  from the old ones at most in the entry \<open>timestamp\<close> (another value, no entry, a new
  entry), every other request answered as before, the evaluation has the same outcome: the
  same requests, the same rows with the same fields, the same pacing.
\<close>

theorem timestamp_from_top_account:
  assumes "h \<in> set (rows (process_symbol C net run s))"
  shows "(\<exists>ta. latest_async net top_acc_path s = JObj ta
             \<and> py_int C (dict_get ta ''timestamp'' (JInt 0)) = Some (timestamp_ms h)
             \<and> (\<not> has_key ta ''timestamp'' \<longrightarrow> timestamp_ms h = 0))
       \<and> (\<forall>net' run' h'. net' top_acc_path s = net top_acc_path s
              \<and> h' \<in> set (rows (process_symbol C net' run' s))
            \<longrightarrow> timestamp_ms h' = timestamp_ms h)
       \<and> (\<forall>ta ga tp. \<not> has_key ta ''timestamp'' \<and> ta \<noteq> []
            \<longrightarrow> check_traders C (JObj ta) ga tp
                = check_traders C (JObj (ta @ [(''timestamp'', JInt 0)])) ga tp)
       \<and> (\<forall>net' ga ga' tp tp'.
              (\<forall>p. p \<noteq> glob_acc_path \<and> p \<noteq> top_pos_path \<longrightarrow> net' p s = net p s)
              \<and> latest_async net glob_acc_path s = JObj ga
              \<and> latest_async net' glob_acc_path s = JObj ga'
              \<and> (\<forall>k. k \<noteq> ''timestamp'' \<longrightarrow> map_of ga' k = map_of ga k)
              \<and> latest_async net top_pos_path s = JObj tp
              \<and> latest_async net' top_pos_path s = JObj tp'
              \<and> (\<forall>k. k \<noteq> ''timestamp'' \<longrightarrow> map_of tp' k = map_of tp k)
            \<longrightarrow> process_symbol C net' run s = process_symbol C net run s)"
proof -
  from assms obtain ta where ta: "latest_async net top_acc_path s = JObj ta"
    "py_int C (dict_get ta ''timestamp'' (JInt 0)) = Some (timestamp_ms h)"
    by (rule row_timestamp)
  have one: "\<exists>ta. latest_async net top_acc_path s = JObj ta
             \<and> py_int C (dict_get ta ''timestamp'' (JInt 0)) = Some (timestamp_ms h)
             \<and> (\<not> has_key ta ''timestamp'' \<longrightarrow> timestamp_ms h = 0)"
    using ta absent_default_zero[OF _ ta(2)] by blast
  have two: "timestamp_ms h' = timestamp_ms h"
    if a: "net' top_acc_path s = net top_acc_path s \<and> h' \<in> set (rows (process_symbol C net' run' s))"
    for net' :: network and run' h'
  proof -
    from a have "h' \<in> set (rows (process_symbol C net' run' s))" by simp
    then obtain ta' where ta': "latest_async net' top_acc_path s = JObj ta'"
      "py_int C (dict_get ta' ''timestamp'' (JInt 0)) = Some (timestamp_ms h')"
      by (rule row_timestamp)
    from a have "net' top_acc_path s = net top_acc_path s" by simp
    then have "latest_async net' top_acc_path s = latest_async net top_acc_path s"
      by (rule latest_async_cong)
    with ta ta' show ?thesis by simp
  qed
  have three: "check_traders C (JObj ta) ga tp
                = check_traders C (JObj (ta @ [(''timestamp'', JInt 0)])) ga tp"
    if "\<not> has_key ta ''timestamp'' \<and> ta \<noteq> []" for ta ga tp
    using that by (simp add: absent_timestamp_is_zero)
  have four: "process_symbol C net' run s = process_symbol C net run s"
    if a: "(\<forall>p. p \<noteq> glob_acc_path \<and> p \<noteq> top_pos_path \<longrightarrow> net' p s = net p s)
              \<and> latest_async net glob_acc_path s = JObj ga
              \<and> latest_async net' glob_acc_path s = JObj ga'
              \<and> (\<forall>k. k \<noteq> ''timestamp'' \<longrightarrow> map_of ga' k = map_of ga k)
              \<and> latest_async net top_pos_path s = JObj tp
              \<and> latest_async net' top_pos_path s = JObj tp'
              \<and> (\<forall>k. k \<noteq> ''timestamp'' \<longrightarrow> map_of tp' k = map_of tp k)"
    for net' :: network and ga ga' tp tp'
  proof -
    from a have same: "\<forall>p. p \<noteq> glob_acc_path \<and> p \<noteq> top_pos_path \<longrightarrow> net' p s = net p s"
      and ga: "latest_async net glob_acc_path s = JObj ga"
      and ga': "latest_async net' glob_acc_path s = JObj ga'"
      and gk: "\<forall>k. k \<noteq> ''timestamp'' \<longrightarrow> map_of ga' k = map_of ga k"
      and tp: "latest_async net top_pos_path s = JObj tp"
      and tp': "latest_async net' top_pos_path s = JObj tp'"
      and tk: "\<forall>k. k \<noteq> ''timestamp'' \<longrightarrow> map_of tp' k = map_of tp k"
      by blast+
    note ne = rows_lenses_nonempty[OF assms ga tp]
    from agree_nonempty[OF ne(1) gk] have ge: "ga' = [] \<longleftrightarrow> ga = []" by simp
    from agree_nonempty[OF ne(2) tk] have te: "tp' = [] \<longleftrightarrow> tp = []" by simp
    from same ga ga' gk ge tp tp' tk te show ?thesis
      by (rule process_symbol_other_timestamps)
  qed
  show ?thesis
  proof (intro conjI allI impI)
    show "\<exists>ta. latest_async net top_acc_path s = JObj ta
             \<and> py_int C (dict_get ta ''timestamp'' (JInt 0)) = Some (timestamp_ms h)
             \<and> (\<not> has_key ta ''timestamp'' \<longrightarrow> timestamp_ms h = 0)"
      by (rule one)
  qed (erule two, erule three, erule four)
qed

text \<open>
  The theorem at an input whose top-account snapshot has no timestamp, while the other two
  lenses carry 1700000000000: two rows are put on the queue, both with timestamp 0; and the
  outcome is the same when the global-account snapshot has no timestamp and the top-position
  snapshot carries 42.
\<close>

theorem timestamp_from_top_account_witness:
  "rows (process_symbol no_conv
      (example_net (snapshot_no_ts 0.75 0.75) (snapshot 0.75 0.75) (snapshot 0.75 0.75)
         (oi_reply (Fin 2500000))) 1 ''AAAUSDT'')
     = [example_hit ''CROWD_SHORT__TOP_LONG'' 0 (Fin 2500000),
        example_hit ''CROWD_LONG__TOP_SHORT'' 0 (Fin 2500000)]
   \<and> (\<exists>ta. latest_async
          (example_net (snapshot_no_ts 0.75 0.75) (snapshot 0.75 0.75) (snapshot 0.75 0.75)
             (oi_reply (Fin 2500000))) top_acc_path ''AAAUSDT'' = JObj ta
        \<and> \<not> has_key ta ''timestamp''
        \<and> py_int no_conv (dict_get ta ''timestamp'' (JInt 0))
            = Some (timestamp_ms (example_hit ''CROWD_SHORT__TOP_LONG'' 0 (Fin 2500000))))
   \<and> process_symbol no_conv
       (example_net (snapshot_no_ts 0.75 0.75) (snapshot_no_ts 0.75 0.75)
          (snapshot_at 0.75 0.75 42) (oi_reply (Fin 2500000))) 1 ''AAAUSDT''
     = process_symbol no_conv
       (example_net (snapshot_no_ts 0.75 0.75) (snapshot 0.75 0.75) (snapshot 0.75 0.75)
          (oi_reply (Fin 2500000))) 1 ''AAAUSDT''"
proof -
  let ?net = "example_net (snapshot_no_ts 0.75 0.75) (snapshot 0.75 0.75) (snapshot 0.75 0.75)
         (oi_reply (Fin 2500000))"
  let ?net' = "example_net (snapshot_no_ts 0.75 0.75) (snapshot_no_ts 0.75 0.75)
          (snapshot_at 0.75 0.75 42) (oi_reply (Fin 2500000))"
  let ?h = "example_hit ''CROWD_SHORT__TOP_LONG'' 0 (Fin 2500000)"
  let ?d = "[(''longAccount'', JFloat (Fin 0.75)), (''shortAccount'', JFloat (Fin 0.75))]"
  have rows: "rows (process_symbol no_conv ?net 1 ''AAAUSDT'')
     = [?h, example_hit ''CROWD_LONG__TOP_SHORT'' 0 (Fin 2500000)]"
    by (simp add: example_defs)
  then have mem: "?h \<in> set (rows (process_symbol no_conv ?net 1 ''AAAUSDT''))"
    by simp
  have lens: "latest_async ?net top_acc_path ''AAAUSDT'' = JObj ?d"
    by (simp add: example_defs)
  have absent: "\<not> has_key ?d ''timestamp''"
    by (simp add: has_key_def)
  note main = timestamp_from_top_account[OF mem]
  from main
  have "\<exists>ta. latest_async ?net top_acc_path ''AAAUSDT'' = JObj ta
             \<and> py_int no_conv (dict_get ta ''timestamp'' (JInt 0)) = Some (timestamp_ms ?h)
             \<and> (\<not> has_key ta ''timestamp'' \<longrightarrow> timestamp_ms ?h = 0)"
    by (rule conjunct1)
  with lens absent have first: "\<exists>ta. latest_async ?net top_acc_path ''AAAUSDT'' = JObj ta
        \<and> \<not> has_key ta ''timestamp''
        \<and> py_int no_conv (dict_get ta ''timestamp'' (JInt 0)) = Some (timestamp_ms ?h)"
    by auto
  have k1: "\<forall>k. k \<noteq> ''timestamp'' \<longrightarrow>
      map_of ?d k = map_of (?d @ [(''timestamp'', JInt 1700000000000)]) k"
    by simp
  have k2: "\<forall>k. k \<noteq> ''timestamp'' \<longrightarrow>
      map_of (?d @ [(''timestamp'', JInt 42)]) k = map_of (?d @ [(''timestamp'', JInt 1700000000000)]) k"
    by simp
  from main have four: "\<forall>net' ga ga' tp tp'.
              (\<forall>p. p \<noteq> glob_acc_path \<and> p \<noteq> top_pos_path \<longrightarrow> net' p ''AAAUSDT'' = ?net p ''AAAUSDT'')
              \<and> latest_async ?net glob_acc_path ''AAAUSDT'' = JObj ga
              \<and> latest_async net' glob_acc_path ''AAAUSDT'' = JObj ga'
              \<and> (\<forall>k. k \<noteq> ''timestamp'' \<longrightarrow> map_of ga' k = map_of ga k)
              \<and> latest_async ?net top_pos_path ''AAAUSDT'' = JObj tp
              \<and> latest_async net' top_pos_path ''AAAUSDT'' = JObj tp'
              \<and> (\<forall>k. k \<noteq> ''timestamp'' \<longrightarrow> map_of tp' k = map_of tp k)
            \<longrightarrow> process_symbol no_conv net' 1 ''AAAUSDT'' = process_symbol no_conv ?net 1 ''AAAUSDT''"
    by (elim conjE)
  have e1: "\<forall>p. p \<noteq> glob_acc_path \<and> p \<noteq> top_pos_path \<longrightarrow> ?net' p ''AAAUSDT'' = ?net p ''AAAUSDT''"
    by (rule example_other_lenses(1))
  have l1: "latest_async ?net glob_acc_path ''AAAUSDT''
                  = JObj (?d @ [(''timestamp'', JInt 1700000000000)])"
    and l2: "latest_async ?net' glob_acc_path ''AAAUSDT'' = JObj ?d"
    and l3: "latest_async ?net top_pos_path ''AAAUSDT''
                  = JObj (?d @ [(''timestamp'', JInt 1700000000000)])"
    and l4: "latest_async ?net' top_pos_path ''AAAUSDT''
                  = JObj (?d @ [(''timestamp'', JInt 42)])"
    by (simp_all only: example_other_lenses append_Cons append_Nil)
  have second:
    "process_symbol no_conv ?net' 1 ''AAAUSDT'' = process_symbol no_conv ?net 1 ''AAAUSDT''"
    by (rule four[rule_format, where ga = "?d @ [(''timestamp'', JInt 1700000000000)]"
          and ga' = ?d and tp = "?d @ [(''timestamp'', JInt 1700000000000)]"
          and tp' = "?d @ [(''timestamp'', JInt 42)]"])
       (intro conjI; fact)
  from rows first second show ?thesis by (intro conjI)
qed

section \<open>Both setups at once\<close>

text \<open>
  C3, as the evaluator has it. When the parsed fractions satisfy both Setup A and Setup B
  and the open-interest gate is passed, exactly two rows are put on the queue; the second is
  the first with the setup tag replaced, so they agree on the run, the symbol, the timestamp,
  the open interest, the six fractions and the four enrichment fields. The tags are the
  strings of the source, with two underscores in the middle: \<open>CROWD_SHORT__TOP_LONG\<close> for
  Setup A and \<open>CROWD_LONG__TOP_SHORT\<close> for Setup B.
\<close>

theorem both_setups_two_rows:
  assumes tr: "check_traders C (latest_async net top_acc_path s) (latest_async net glob_acc_path s)
             (latest_async net top_pos_path s) = Go (r, ts)"
    and ab: "setup_a r" "setup_b r"
    and oi: "check_oi C (latest_async net oi_path s) = Go v"
  shows "\<exists>a. rows (process_symbol C net run s) = [a, a\<lparr>setup_tag := ''CROWD_LONG__TOP_SHORT''\<rparr>]
           \<and> setup_tag a = ''CROWD_SHORT__TOP_LONG''
           \<and> run_id a = run \<and> symbol a = s \<and> timestamp_ms a = ts \<and> oi_usdt a = v
           \<and> top_acc_long a = ta_long r \<and> top_acc_short a = ta_short r
           \<and> glob_acc_long a = ga_long r \<and> glob_acc_short a = ga_short r
           \<and> top_pos_long a = tp_long r \<and> top_pos_short a = tp_short r"
  using ab by (simp add: process_symbol_Go[OF tr oi] mk_hit_def)

theorem both_setups_two_rows_witness:
  "setup_a (uniform_ratios 0.75 0.75) \<and> setup_b (uniform_ratios 0.75 0.75)
   \<and> (\<exists>a. rows (process_symbol no_conv
               (example_net (snapshot 0.75 0.75) (snapshot 0.75 0.75) (snapshot 0.75 0.75)
                  (oi_reply (Fin 2500000))) 1 ''AAAUSDT'')
             = [a, a\<lparr>setup_tag := ''CROWD_LONG__TOP_SHORT''\<rparr>]
           \<and> setup_tag a = ''CROWD_SHORT__TOP_LONG''
           \<and> timestamp_ms a = 1700000000000 \<and> oi_usdt a = Fin 2500000)"
proof -
  from both_setups_two_rows[OF example_traders example_both, of 1]
  have "\<exists>a. rows (process_symbol no_conv
               (example_net (snapshot 0.75 0.75) (snapshot 0.75 0.75) (snapshot 0.75 0.75)
                  (oi_reply (Fin 2500000))) 1 ''AAAUSDT'')
             = [a, a\<lparr>setup_tag := ''CROWD_LONG__TOP_SHORT''\<rparr>]
           \<and> setup_tag a = ''CROWD_SHORT__TOP_LONG''
           \<and> timestamp_ms a = 1700000000000 \<and> oi_usdt a = Fin 2500000"
    by blast
  with example_both(1,2) show ?thesis by (intro conjI)
qed

text \<open>
  The claim with the tags as the specification spells them, \<open>CROWD_SHORT_TOP_LONG\<close> and
  \<open>CROWD_LONG_TOP_SHORT\<close>, fails at this input: both setups hold, the gate is passed, and
  the tags of the two rows are not those strings.
\<close>

theorem spec_tags_counterexample:
  "setup_a (uniform_ratios 0.75 0.75) \<and> setup_b (uniform_ratios 0.75 0.75)
   \<and> check_oi no_conv
        (latest_async (example_net (snapshot 0.75 0.75) (snapshot 0.75 0.75) (snapshot 0.75 0.75)
           (oi_reply (Fin 2500000))) oi_path ''AAAUSDT'') = Go (Fin 2500000)
   \<and> map setup_tag (rows (process_symbol no_conv
        (example_net (snapshot 0.75 0.75) (snapshot 0.75 0.75) (snapshot 0.75 0.75)
           (oi_reply (Fin 2500000))) 1 ''AAAUSDT''))
       = [''CROWD_SHORT__TOP_LONG'', ''CROWD_LONG__TOP_SHORT'']
   \<and> map setup_tag (rows (process_symbol no_conv
        (example_net (snapshot 0.75 0.75) (snapshot 0.75 0.75) (snapshot 0.75 0.75)
           (oi_reply (Fin 2500000))) 1 ''AAAUSDT''))
       \<noteq> [''CROWD_SHORT_TOP_LONG'', ''CROWD_LONG_TOP_SHORT'']"
  by (simp add: example_defs)

section \<open>The open-interest minimum\<close>

text \<open>
  C1 on the code, at an open-interest snapshot whose \<open>sumOpenInterestValue\<close> is NaN. The
  fractions pass Setup A; \<open>f\<close> returns the float NaN, \<open>oi_usdt < MIN_OI_USDT\<close> is false, and
  the evaluator puts a row on the queue whose open interest is not \<open>>=\<close> the minimum.
\<close>

theorem nan_open_interest_enqueued:
  "map setup_tag (rows (process_symbol no_conv
      (example_net (snapshot 0.5 0.75) (snapshot 0.5 0.75) (snapshot 0.5 0.75) (oi_reply NaN))
      1 ''AAAUSDT'')) = [''CROWD_SHORT__TOP_LONG'']
   \<and> map oi_usdt (rows (process_symbol no_conv
      (example_net (snapshot 0.5 0.75) (snapshot 0.5 0.75) (snapshot 0.5 0.75) (oi_reply NaN))
      1 ''AAAUSDT'')) = [NaN]
   \<and> \<not> float_ge_int NaN MIN_OI_USDT"
  by (simp add: example_defs)

section \<open>The sink's store operation\<close>

text \<open>
  C4, for rows that the table accepts. When two storable rows with the same key
  \<open>(run_id, symbol, setup)\<close> are written one after the other by \<open>db_writer\<close>, both writes
  succeed, the table holds exactly one row with that key, the later row as bound (a NaN in
  a nullable column is stored as NULL), the rows of every other key are those it held
  before, and the table is what writing the later row alone gives; writing a storable row
  twice in succession leaves the table as writing it once does.
\<close>

theorem upsert_idempotent:
  assumes "hit_key h1 = hit_key h2" and "storable h1" and "storable h2"
  shows "\<exists>r st1 st2.
           bind_row h2 = Inr r
         \<and> row_key r = [Integer (run_id h2), Text (symbol h2), Text (setup_tag h2)]
         \<and> db_writer_step (scan_hits, n) h1 = Inr st1
         \<and> db_writer_step st1 h2 = Inr st2
         \<and> filter (\<lambda>x. row_key x = row_key r) (fst st2) = [r]
         \<and> filter (\<lambda>x. row_key x \<noteq> row_key r) (fst st2)
             = filter (\<lambda>x. row_key x \<noteq> row_key r) scan_hits
         \<and> (\<exists>st. db_writer_step (scan_hits, n) h2 = Inr st \<and> fst st2 = fst st
               \<and> (\<exists>st'. db_writer_step st h2 = Inr st' \<and> fst st' = fst st))"
proof -
  obtain r1 where r1: "bind_row h1 = Inr r1"
    and w1: "db_writer_step (scan_hits, n) h1
               = Inr (filter (\<lambda>x. row_key x \<noteq> row_key r1) scan_hits @ [r1], n + 1)"
    using assms(2) by (rule written_table)
  let ?t1 = "filter (\<lambda>x. row_key x \<noteq> row_key r1) scan_hits @ [r1]"
  obtain r where r: "bind_row h2 = Inr r"
    and w2: "db_writer_step (?t1, n + 1) h2
               = Inr (filter (\<lambda>x. row_key x \<noteq> row_key r) ?t1 @ [r], n + 1 + 1)"
    using assms(3) by (rule written_table)
  obtain r' where r': "bind_row h2 = Inr r'"
    and w3: "db_writer_step (scan_hits, n) h2
               = Inr (filter (\<lambda>x. row_key x \<noteq> row_key r') scan_hits @ [r'], n + 1)"
    using assms(3) by (rule written_table)
  from r r' have rr: "r' = r" by simp
  let ?t = "filter (\<lambda>x. row_key x \<noteq> row_key r) scan_hits @ [r]"
  obtain r'' where r'': "bind_row h2 = Inr r''"
    and w4: "db_writer_step (?t, n + 1) h2
               = Inr (filter (\<lambda>x. row_key x \<noteq> row_key r'') ?t @ [r''], n + 1 + 1)"
    using assms(3) by (rule written_table)
  from r r'' have rr': "r'' = r" by simp
  from bind_row_key[OF r1 r] assms(1) have k: "row_key r1 = row_key r" by simp
  from r have key: "row_key r = [Integer (run_id h2), Text (symbol h2), Text (setup_tag h2)]"
    by (auto simp: bind_row_def row_key_def split: if_splits)
  have t2: "filter (\<lambda>x. row_key x \<noteq> row_key r) ?t1 @ [r] = ?t"
    by (simp add: k)
  have one: "filter (\<lambda>x. row_key x = row_key r) ?t = [r]"
    by (simp add: filter_same_key)
  have again: "filter (\<lambda>x. row_key x \<noteq> row_key r) ?t @ [r] = ?t"
    by simp
  show ?thesis
  proof (intro exI conjI)
    show "bind_row h2 = Inr r" by (rule r)
    show "row_key r = [Integer (run_id h2), Text (symbol h2), Text (setup_tag h2)]" by (rule key)
    show "db_writer_step (scan_hits, n) h1 = Inr (?t1, n + 1)" by (rule w1)
    show "db_writer_step (?t1, n + 1) h2 = Inr (?t, n + 1 + 1)"
      using w2 by (simp only: t2)
    show "filter (\<lambda>x. row_key x = row_key r) (fst (?t, n + 1 + 1)) = [r]"
      using one by simp
    show "filter (\<lambda>x. row_key x \<noteq> row_key r) (fst (?t, n + 1 + 1))
             = filter (\<lambda>x. row_key x \<noteq> row_key r) scan_hits"
      by simp
    show "db_writer_step (scan_hits, n) h2 = Inr (?t, n + 1)"
      using w3 by (simp only: rr)
    show "fst (?t, n + 1 + 1) = fst (?t, n + 1)" by simp
    show "db_writer_step (?t, n + 1) h2 = Inr (?t, n + 1 + 1)"
      using w4 by (simp only: rr' again)
    show "fst (?t, n + 1 + 1) = fst (?t, n + 1)" by simp
  qed
qed

text \<open>
  The theorem on a table that holds a row of the other setup and an older row of the key:
  two writes with the key \<open>(1, AAAUSDT, CROWD_SHORT__TOP_LONG)\<close> and different values.
\<close>

theorem upsert_idempotent_witness:
  "hit_key (example_hit ''CROWD_SHORT__TOP_LONG'' 1 (Fin 2500000))
     = hit_key (example_hit ''CROWD_SHORT__TOP_LONG'' 2 (Fin 5000000))
   \<and> (\<exists>st1 st2.
         db_writer_step
           ([example_row ''CROWD_LONG__TOP_SHORT'' 0 2500000,
             example_row ''CROWD_SHORT__TOP_LONG'' 0 2500000], 2)
           (example_hit ''CROWD_SHORT__TOP_LONG'' 1 (Fin 2500000)) = Inr st1
       \<and> db_writer_step st1 (example_hit ''CROWD_SHORT__TOP_LONG'' 2 (Fin 5000000)) = Inr st2
       \<and> fst st2 = [example_row ''CROWD_LONG__TOP_SHORT'' 0 2500000,
                    example_row ''CROWD_SHORT__TOP_LONG'' 2 5000000])"
proof -
  let ?h1 = "example_hit ''CROWD_SHORT__TOP_LONG'' 1 (Fin 2500000)"
  let ?h2 = "example_hit ''CROWD_SHORT__TOP_LONG'' 2 (Fin 5000000)"
  let ?t = "[example_row ''CROWD_LONG__TOP_SHORT'' 0 2500000,
             example_row ''CROWD_SHORT__TOP_LONG'' 0 2500000]"
  have k: "hit_key ?h1 = hit_key ?h2"
    by (simp add: hit_key_def example_hit_def)
  have s1: "storable ?h1" and s2: "storable ?h2"
    by (simp_all add: storable_def example_hit_def int64_def)
  have alone: "db_writer_step (?t, 2) ?h2
      = Inr ([example_row ''CROWD_LONG__TOP_SHORT'' 0 2500000,
              example_row ''CROWD_SHORT__TOP_LONG'' 2 5000000], 3)"
    by (simp add: sink_defs)
  from upsert_idempotent[OF k s1 s2, of ?t 2]
  obtain st1 st2 st where w: "db_writer_step (?t, 2) ?h1 = Inr st1"
    "db_writer_step st1 ?h2 = Inr st2" "db_writer_step (?t, 2) ?h2 = Inr st" "fst st2 = fst st"
    by blast
  from w(3) alone have "st = ([example_row ''CROWD_LONG__TOP_SHORT'' 0 2500000,
              example_row ''CROWD_SHORT__TOP_LONG'' 2 5000000], 3)"
    by (simp only: sum.inject)
  then have "fst st = [example_row ''CROWD_LONG__TOP_SHORT'' 0 2500000,
              example_row ''CROWD_SHORT__TOP_LONG'' 2 5000000]"
    by (simp only: fst_conv)
  with w(4) have "fst st2 = [example_row ''CROWD_LONG__TOP_SHORT'' 0 2500000,
              example_row ''CROWD_SHORT__TOP_LONG'' 2 5000000]"
    by (simp only:)
  with w(1,2) k show ?thesis by blast
qed

text \<open>
  C4 does not hold for every two rows with the same key. After a first write of the key
  \<open>(1, AAAUSDT, CROWD_SHORT__TOP_LONG)\<close>, a second row of that key whose timestamp is
  \<open>2^63\<close> is refused with \<open>OverflowError\<close>, and one whose open interest is NaN with
  \<open>IntegrityError\<close>: the table keeps the values of the earlier write.
\<close>

theorem later_write_fails_counterexample:
  "hit_key (example_hit ''CROWD_SHORT__TOP_LONG'' 1 (Fin 2500000))
     = hit_key (example_hit ''CROWD_SHORT__TOP_LONG'' 9223372036854775808 (Fin 5000000))
   \<and> hit_key (example_hit ''CROWD_SHORT__TOP_LONG'' 1 (Fin 2500000))
     = hit_key (example_hit ''CROWD_SHORT__TOP_LONG'' 2 NaN)
   \<and> db_writer_step ([], 0) (example_hit ''CROWD_SHORT__TOP_LONG'' 1 (Fin 2500000))
     = Inr ([example_row ''CROWD_SHORT__TOP_LONG'' 1 2500000], 1)
   \<and> db_writer_step ([example_row ''CROWD_SHORT__TOP_LONG'' 1 2500000], 1)
       (example_hit ''CROWD_SHORT__TOP_LONG'' 9223372036854775808 (Fin 5000000))
     = Inl OverflowError
   \<and> db_writer_step ([example_row ''CROWD_SHORT__TOP_LONG'' 1 2500000], 1)
       (example_hit ''CROWD_SHORT__TOP_LONG'' 2 NaN)
     = Inl IntegrityError"
  by (simp add: sink_defs hit_key_def)

section \<open>Termination and the concurrency bound\<close>




text \<open>
  C6. In every state of a run at most 10 tasks are in the gate, and the semaphore's value
  is 10 less their number. While 10 are in the gate, no step moves a waiting task: it waits
  until a task leaves; while fewer are, every waiting task can enter.
\<close>

theorem concurrency_bound:
  assumes "reachable C net run symbols tbl s"
  shows "length (filter in_gate (phases s)) \<le> 10
       \<and> semaphore s = 10 - length (filter in_gate (phases s))
       \<and> (\<forall>s' i. length (filter in_gate (phases s)) = 10 \<and> step C net run symbols s s'
                \<and> i < length (phases s) \<and> phases s ! i = Waiting
              \<longrightarrow> phases s' ! i = Waiting)
       \<and> (\<forall>i. length (filter in_gate (phases s)) < 10 \<and> i < length (phases s)
                \<and> phases s ! i = Waiting
              \<longrightarrow> (\<exists>s'. step C net run symbols s s' \<and> phases s' ! i = Running))"
proof -
  from assms have inv: "consistent symbols s" by (rule reachable_consistent)
  then have sem: "semaphore s + length (filter in_gate (phases s)) = 10"
    by (simp add: consistent_def)
  show ?thesis
  proof (intro conjI allI impI)
    from sem show "length (filter in_gate (phases s)) \<le> 10" by simp
    from sem show "semaphore s = 10 - length (filter in_gate (phases s))" by simp
  next
    fix s' i
    assume a: "length (filter in_gate (phases s)) = 10 \<and> step C net run symbols s s'
                \<and> i < length (phases s) \<and> phases s ! i = Waiting"
    with sem have "semaphore s = 0" by simp
    with a show "phases s' ! i = Waiting" by (blast intro: waiting_stays)
  next
    fix i
    assume a: "length (filter in_gate (phases s)) < 10 \<and> i < length (phases s)
                \<and> phases s ! i = Waiting"
    with sem have free: "0 < semaphore s" by simp
    let ?s' = "s\<lparr>semaphore := semaphore s - 1, phases := (phases s)[i := Running],
          scanned := scanned s + 1\<rparr>"
    from a free have "step C net run symbols s ?s'" by (blast intro: step.acquire)
    moreover from a have "phases ?s' ! i = Running" by simp
    ultimately show "\<exists>s'. step C net run symbols s s' \<and> phases s' ! i = Running" by blast
  qed
qed

text \<open>
  The theorem on a scan of 11 symbols after ten tasks have entered the gate: the semaphore is
  at 0 and the eleventh task waits.
\<close>

theorem concurrency_bound_witness:
  "reachable no_conv dead_net 1 (replicate 11 ''AAAUSDT'') []
     \<lparr>semaphore = 0, phases = replicate 10 Running @ [Waiting], scanned = 10,
      insert_queue = [], db = [], inserted = 0, writer = Polling\<rparr>
   \<and> length (filter in_gate (replicate 10 Running @ [Waiting])) \<le> 10
   \<and> (0::nat) = 10 - length (filter in_gate (replicate 10 Running @ [Waiting]))"
proof -
  let ?s = "\<lparr>semaphore = 0, phases = replicate 10 Running @ [Waiting], scanned = 10,
      insert_queue = [], db = [], inserted = 0, writer = Polling\<rparr>"
  have r: "reachable no_conv dead_net 1 (replicate 11 ''AAAUSDT'') [] ?s"
    using acquired_prefix[of 10 "replicate 11 ''AAAUSDT''" no_conv dead_net 1 "[]"] by simp
  from concurrency_bound[OF r]
  have "length (filter in_gate (phases ?s)) \<le> 10
      \<and> semaphore ?s = 10 - length (filter in_gate (phases ?s))"
    by blast
  then have "length (filter in_gate (replicate 10 Running @ [Waiting])) \<le> 10
      \<and> (0::nat) = 10 - length (filter in_gate (replicate 10 Running @ [Waiting]))"
    by (simp only: scan.simps)
  with r show ?thesis by blast
qed

end
